theory Spec2Isabelle
  imports Main
begin

section \<open>Go values: panics, errors, strings\<close>

text \<open>
  A Go function either returns or panics. The two run-time panics the driver can raise
  by itself are an index out of range (\<^verbatim>\<open>xs[0]\<close> on an empty slice) and a slice
  expression with bounds out of range (\<^verbatim>\<open>s[:i]\<close> with \<^verbatim>\<open>i < 0\<close>).
\<close>

datatype panic = IndexOutOfRange | SliceBoundsOutOfRange

datatype 'a outcome = Return 'a | Panic panic

text \<open>
  Values of Go's \<^verbatim>\<open>error\<close> interface. \<open>External s\<close> is an error handed back by the
  SDK client or by a library, with \<open>s\<close> the text of its \<^verbatim>\<open>Error()\<close>; \<open>ErrorNew s\<close> is
  \<^verbatim>\<open>errors.New(s)\<close> (or \<^verbatim>\<open>fmt.Errorf\<close> without an error argument); \<open>Errorf p e\<close>
  is \<^verbatim>\<open>fmt.Errorf(p + "%s", e)\<close>; \<open>NumError f s k\<close> is the error of
  \<^verbatim>\<open>strconv\<close>; \<open>MultiError es\<close> is \<^verbatim>\<open>mcnutils.MultiError{Errs: es}\<close>. A nil error is
  \<open>None\<close>.
\<close>

datatype parse_error = ErrSyntax | ErrRange

datatype error =
    errorReadingUserData
  | ErrorNew string
  | External string
  | NumError string string parse_error
  | Errorf string error
  | MultiError "error list"

definition HasPrefix :: "string \<Rightarrow> string \<Rightarrow> bool" where
  "HasPrefix s p = (take (length p) s = p)"

fun Contains :: "string \<Rightarrow> string \<Rightarrow> bool" where
  "Contains [] sub = (sub = [])"
| "Contains (x # xs) sub = (HasPrefix (x # xs) sub \<or> Contains xs sub)"

fun IndexByte :: "string \<Rightarrow> char \<Rightarrow> int" where
  "IndexByte [] c = - 1"
| "IndexByte (x # xs) c =
     (if x = c then 0 else (let i = IndexByte xs c in if i < 0 then - 1 else i + 1))"

text \<open>The slice expression \<^verbatim>\<open>s[:i]\<close>: it panics unless \<^verbatim>\<open>0 <= i <= len(s)\<close>.\<close>

definition slice_to :: "string \<Rightarrow> int \<Rightarrow> string outcome" where
  "slice_to s i =
     (if 0 \<le> i \<and> i \<le> int (length s) then Return (take (nat i) s)
      else Panic SliceBoundsOutOfRange)"

text \<open>\<^verbatim>\<open>strings.Split(s, sep)\<close> for a separator of one byte.\<close>

fun Split :: "string \<Rightarrow> char \<Rightarrow> string list" where
  "Split [] c = [[]]"
| "Split (x # xs) c =
     (if x = c then [] # Split xs c
      else (case Split xs c of [] \<Rightarrow> [[x]] | w # ws \<Rightarrow> (x # w) # ws))"

text \<open>\<^verbatim>\<open>fmt.Sprintf("%d", n)\<close>: the decimal digits of a number, with its sign.\<close>

definition digitChar :: "nat \<Rightarrow> char" where
  "digitChar n = ''0123456789'' ! n"

fun utoa :: "nat \<Rightarrow> string" where
  "utoa n = (if n < 10 then [digitChar n] else utoa (n div 10) @ [digitChar (n mod 10)])"

declare utoa.simps [simp del]

definition itoa :: "int \<Rightarrow> string" where
  "itoa i = (if i < 0 then CHR ''-'' # utoa (nat (- i)) else utoa (nat i))"

section \<open>The provider's data, as the SDK hands it to the driver\<close>

text \<open>
  The SDK's structures hold pointers. A field that the driver tests against nil, or
  passes on without reading, is an option here; a field that the driver dereferences
  without a test is taken as present, as the provider's responses carry it.
\<close>

record Tag =
  tag_Key :: string
  tag_Value :: string

record IpPermission =
  IpProtocol :: string
  FromPort :: "int option"
  ToPort :: "int option"
  IpRanges :: "string list"
  UserIdGroupPairs :: "string list"

record SecurityGroup =
  sg_GroupId :: string
  sg_GroupName :: string
  sg_VpcId :: string
  sg_IpPermissions :: "IpPermission list"
  sg_Tags :: "Tag list"

record EbsBlockDevice =
  ebs_VolumeSize :: "int option"
  ebs_VolumeType :: "string option"
  ebs_DeleteOnTermination :: "bool option"

record BlockDeviceMapping =
  bdm_DeviceName :: string
  bdm_Ebs :: "EbsBlockDevice option"

record Instance =
  inst_InstanceId :: string
  inst_StateName :: string
  inst_PrivateIpAddress :: "string option"
  inst_PublicIpAddress :: "string option"
  inst_KeyName :: "string option"

record Reservation =
  res_Instances :: "Instance list"

record InstanceNetworkInterfaceSpecification =
  ni_DeviceIndex :: int
  ni_Groups :: "string list"
  ni_SubnetId :: string
  ni_AssociatePublicIpAddress :: bool

record RunInstancesInput =
  ri_ImageId :: string
  ri_MinCount :: int
  ri_MaxCount :: int
  ri_AvailabilityZone :: string
  ri_KeyName :: string
  ri_InstanceType :: string
  ri_NetworkInterfaces :: "InstanceNetworkInterfaceSpecification list"
  ri_IamInstanceProfile :: string
  ri_EbsOptimized :: bool
  ri_BlockDeviceMappings :: "BlockDeviceMapping list"
  ri_UserData :: string

datatype DescribeSecurityGroupsInput =
    Filters "(string \<times> string list) list"
  | GroupIds "string list"

section \<open>The driver\<close>

text \<open>
  The fields of \<^verbatim>\<open>Driver\<close> that the provisioning and teardown code reads or writes.
  \<open>MachineName\<close> and \<open>IPAddress\<close> are fields of the embedded \<^verbatim>\<open>BaseDriver\<close>;
  \<open>SSHKeyPath\<close> is the value of its \<^verbatim>\<open>GetSSHKeyPath()\<close>.
\<close>

record Driver =
  MachineName :: string
  IPAddress :: string
  SSHKeyPath :: string
  Region :: string
  AMI :: string
  ExistingKey :: bool
  KeyName :: string
  InstanceId :: string
  InstanceType :: string
  PrivateIPAddress :: string
  SecurityGroupId :: string
  SecurityGroupIds :: "string list"
  SecurityGroupName :: string
  SecurityGroupNames :: "string list"
  OpenPorts :: "string list"
  Tags :: string
  DeviceName :: string
  RootSize :: int
  VolumeType :: string
  IamInstanceProfile :: string
  VpcId :: string
  SubnetId :: string
  Zone :: string
  PrivateIPOnly :: bool
  UsePrivateIP :: bool
  UseEbsOptimizedInstance :: bool
  SSHPrivateKeyPath :: string
  Endpoint :: string
  UserDataFile :: string
  bdmList :: "BlockDeviceMapping list"
  HttpEndpoint :: string
  HttpTokens :: string
  AllocationId :: string
  PublicIp :: string

section \<open>The world outside the driver\<close>

text \<open>
  Every call that leaves the driver (the provider's API, the file system, the key
  generator, the random source) is recorded, in order, in a trace. The world answers a
  call as a function of the trace so far and of the call's arguments, so that two equal
  calls may be answered differently. A failing call answers with the text of its error.
\<close>

datatype call =
    GenerateSSHKeyCall string
  | CopyFileCall string string
  | ReadFileCall string
  | IntnCall nat
  | ImportKeyPairCall string string
  | DescribeSecurityGroupsCall DescribeSecurityGroupsInput
  | CreateSecurityGroupCall string string string
  | CreateTagsCall "string list" "Tag list"
  | AuthorizeSecurityGroupIngressCall string "IpPermission list"
  | RunInstancesCall RunInstancesInput
  | DescribeInstancesCall "string list"
  | AllocateAddressCall string
  | AssociateAddressCall string string string
  | ModifyInstanceMetadataOptionsCall string string string
  | TerminateInstancesCall "string list"
  | DeleteKeyPairCall "string option"

type_synonym trace = "call list"

record env =
  GenerateSSHKey :: "trace \<Rightarrow> string \<Rightarrow> string option"
  CopyFile :: "trace \<Rightarrow> string \<Rightarrow> string \<Rightarrow> string option"
  ReadFile :: "trace \<Rightarrow> string \<Rightarrow> string + string"
  randSource :: "trace \<Rightarrow> nat"
  EncodeToString :: "string \<Rightarrow> string"
  version_Version :: string
  waitMaxAttempts :: nat
  ImportKeyPair :: "trace \<Rightarrow> string \<Rightarrow> string \<Rightarrow> string option"
  DescribeSecurityGroups :: "trace \<Rightarrow> DescribeSecurityGroupsInput \<Rightarrow> string + SecurityGroup list"
  CreateSecurityGroup :: "trace \<Rightarrow> string \<Rightarrow> string \<Rightarrow> string \<Rightarrow> string + string"
  CreateTags :: "trace \<Rightarrow> string list \<Rightarrow> Tag list \<Rightarrow> string option"
  AuthorizeSecurityGroupIngress :: "trace \<Rightarrow> string \<Rightarrow> IpPermission list \<Rightarrow> string option"
  RunInstances :: "trace \<Rightarrow> RunInstancesInput \<Rightarrow> string + Instance list"
  DescribeInstances :: "trace \<Rightarrow> string list \<Rightarrow> string + Reservation list"
  AllocateAddress :: "trace \<Rightarrow> string \<Rightarrow> string + (string \<times> string)"
  AssociateAddress :: "trace \<Rightarrow> string \<Rightarrow> string \<Rightarrow> string \<Rightarrow> string option"
  ModifyInstanceMetadataOptions :: "trace \<Rightarrow> string \<Rightarrow> string \<Rightarrow> string \<Rightarrow> string option"
  TerminateInstances :: "trace \<Rightarrow> string list \<Rightarrow> string option"
  DeleteKeyPair :: "trace \<Rightarrow> string option \<Rightarrow> string option"

section \<open>Teardown and queries\<close>

text \<open>\<^verbatim>\<open>getInstance\<close>: the first instance of the first reservation, read without a test.\<close>

definition getInstance :: "env \<Rightarrow> Driver \<Rightarrow> trace \<Rightarrow> (error + Instance) outcome \<times> trace" where
  "getInstance c d t =
     (case DescribeInstances c t [InstanceId d] of
        Inl e \<Rightarrow> (Return (Inl (External e)), t @ [DescribeInstancesCall [InstanceId d]])
      | Inr rs \<Rightarrow>
          (case rs of
             [] \<Rightarrow> (Panic IndexOutOfRange, t @ [DescribeInstancesCall [InstanceId d]])
           | r # _ \<Rightarrow>
               (case res_Instances r of
                  [] \<Rightarrow> (Panic IndexOutOfRange, t @ [DescribeInstancesCall [InstanceId d]])
                | i # _ \<Rightarrow> (Return (Inr i), t @ [DescribeInstancesCall [InstanceId d]]))))"

text \<open>\<^verbatim>\<open>terminate\<close>\<close>

definition terminate :: "env \<Rightarrow> Driver \<Rightarrow> trace \<Rightarrow> error option \<times> trace" where
  "terminate c d t =
     (if InstanceId d = [] then (None, t)
      else
        (case TerminateInstances c t [InstanceId d] of
           Some e \<Rightarrow>
             (if HasPrefix e ''unknown instance'' \<or> HasPrefix e ''InvalidInstanceID.NotFound''
              then (None, t @ [TerminateInstancesCall [InstanceId d]])
              else (Some (Errorf ''unable to terminate instance: '' (External e)),
                    t @ [TerminateInstancesCall [InstanceId d]]))
         | None \<Rightarrow> (None, t @ [TerminateInstancesCall [InstanceId d]])))"

text \<open>\<^verbatim>\<open>deleteKeyPair\<close>\<close>

definition deleteKeyPair :: "env \<Rightarrow> Driver \<Rightarrow> trace \<Rightarrow> error option outcome \<times> trace" where
  "deleteKeyPair c d t =
     (if KeyName d = [] then (Return None, t)
      else
        (case getInstance c d t of
           (Panic p, t1) \<Rightarrow> (Panic p, t1)
         | (Return (Inl err), t1) \<Rightarrow> (Return (Some err), t1)
         | (Return (Inr instance), t1) \<Rightarrow>
             (case DeleteKeyPair c t1 (inst_KeyName instance) of
                Some e \<Rightarrow> (Return (Some (External e)), t1 @ [DeleteKeyPairCall (inst_KeyName instance)])
              | None \<Rightarrow> (Return None, t1 @ [DeleteKeyPairCall (inst_KeyName instance)]))))"

text \<open>
  \<^verbatim>\<open>Remove\<close>: the errors of the two steps are appended to \<^verbatim>\<open>multierr.Errs\<close>; the
  result is nil when that list is empty.
\<close>

definition appendErr :: "error list \<Rightarrow> error option \<Rightarrow> error list" where
  "appendErr errs r = (case r of None \<Rightarrow> errs | Some err \<Rightarrow> errs @ [err])"

definition multierrResult :: "error list \<Rightarrow> error option" where
  "multierrResult errs = (if length errs = 0 then None else Some (MultiError errs))"

definition Remove :: "env \<Rightarrow> Driver \<Rightarrow> trace \<Rightarrow> error option outcome \<times> trace" where
  "Remove c d t =
     (case terminate c d t of
        (r1, t1) \<Rightarrow>
          (if \<not> ExistingKey d then
             (case deleteKeyPair c d t1 of
                (Panic p, t2) \<Rightarrow> (Panic p, t2)
              | (Return r2, t2) \<Rightarrow> (Return (multierrResult (appendErr (appendErr [] r1) r2)), t2))
           else (Return (multierrResult (appendErr [] r1)), t1)))"

text \<open>\<^verbatim>\<open>GetIP\<close>: Go's pair of results \<^verbatim>\<open>(string, error)\<close>.\<close>

definition GetIP :: "env \<Rightarrow> Driver \<Rightarrow> trace \<Rightarrow> (string \<times> error option) outcome \<times> trace" where
  "GetIP c d t =
     (case getInstance c d t of
        (Panic p, t1) \<Rightarrow> (Panic p, t1)
      | (Return (Inl err), t1) \<Rightarrow> (Return ([], Some err), t1)
      | (Return (Inr inst), t1) \<Rightarrow>
          (if PrivateIPOnly d then
             (case inst_PrivateIpAddress inst of
                None \<Rightarrow> (Return ([], Some (ErrorNew (''No private IP for instance '' @ inst_InstanceId inst))), t1)
              | Some ip \<Rightarrow> (Return (ip, None), t1))
           else if UsePrivateIP d then
             (case inst_PrivateIpAddress inst of
                None \<Rightarrow> (Return ([], Some (ErrorNew (''No private IP for instance '' @ inst_InstanceId inst))), t1)
              | Some ip \<Rightarrow> (Return (ip, None), t1))
           else
             (case inst_PublicIpAddress inst of
                None \<Rightarrow> (Return ([], Some (ErrorNew (''No IP for instance '' @ inst_InstanceId inst))), t1)
              | Some ip \<Rightarrow> (Return (ip, None), t1))))"

datatype State = Starting | Running | Stopping | Stopped | StateError

definition GetState :: "env \<Rightarrow> Driver \<Rightarrow> trace \<Rightarrow> (State \<times> error option) outcome \<times> trace" where
  "GetState c d t =
     (case getInstance c d t of
        (Panic p, t1) \<Rightarrow> (Panic p, t1)
      | (Return (Inl err), t1) \<Rightarrow> (Return (StateError, Some err), t1)
      | (Return (Inr inst), t1) \<Rightarrow>
          (if inst_StateName inst = ''pending'' then (Return (Starting, None), t1)
           else if inst_StateName inst = ''running'' then (Return (Running, None), t1)
           else if inst_StateName inst = ''stopping'' then (Return (Stopping, None), t1)
           else if inst_StateName inst = ''shutting-down'' then (Return (Stopping, None), t1)
           else if inst_StateName inst = ''stopped'' then (Return (Stopped, None), t1)
           else if inst_StateName inst = ''terminated'' then (Return (StateError, None), t1)
           else (Return (StateError, None), t1)))"

definition instanceIsRunning :: "env \<Rightarrow> Driver \<Rightarrow> trace \<Rightarrow> bool outcome \<times> Driver \<times> trace" where
  "instanceIsRunning c d t =
     (case GetState c d t of
        (Panic p, t1) \<Rightarrow> (Panic p, d, t1)
      | (Return (st, err), t1) \<Rightarrow> (Return (st = Running), d, t1))"

definition instanceIpAvailable :: "env \<Rightarrow> Driver \<Rightarrow> trace \<Rightarrow> bool outcome \<times> Driver \<times> trace" where
  "instanceIpAvailable c d t =
     (case GetIP c d t of
        (Panic p, t1) \<Rightarrow> (Panic p, d, t1)
      | (Return (ip, err), t1) \<Rightarrow>
          (if ip \<noteq> [] then (Return True, d\<lparr>IPAddress := ip\<rparr>, t1) else (Return False, d, t1)))"

text \<open>
  \<^verbatim>\<open>mcnutils.WaitFor\<close> belongs to the host tool's library: it evaluates the predicate
  until it holds, at most \<open>waitMaxAttempts\<close> times (60 in the library, with a sleep
  after each attempt that fails), and returns an error once the attempts are used up.
  \<open>WaitForN n maxAttempts\<close> is its loop with \<open>n\<close> attempts left.
\<close>

fun WaitForN :: "nat \<Rightarrow> nat \<Rightarrow> (Driver \<Rightarrow> trace \<Rightarrow> bool outcome \<times> Driver \<times> trace) \<Rightarrow>
    Driver \<Rightarrow> trace \<Rightarrow> error option outcome \<times> Driver \<times> trace" where
  "WaitForN 0 maxAttempts f d t =
     (Return (Some (ErrorNew (''Maximum number of retries ('' @ itoa (int maxAttempts) @ '') exceeded''))), d, t)"
| "WaitForN (Suc n) maxAttempts f d t =
     (case f d t of
        (Panic p, d1, t1) \<Rightarrow> (Panic p, d1, t1)
      | (Return stop, d1, t1) \<Rightarrow> (if stop then (Return None, d1, t1) else WaitForN n maxAttempts f d1 t1))"

definition WaitFor :: "env \<Rightarrow> (Driver \<Rightarrow> trace \<Rightarrow> bool outcome \<times> Driver \<times> trace) \<Rightarrow>
    Driver \<Rightarrow> trace \<Rightarrow> error option outcome \<times> Driver \<times> trace" where
  "WaitFor c f d t = WaitForN (waitMaxAttempts c) (waitMaxAttempts c) f d t"

definition waitForInstance :: "env \<Rightarrow> Driver \<Rightarrow> trace \<Rightarrow> error option outcome \<times> Driver \<times> trace" where
  "waitForInstance c d t = WaitFor c (instanceIsRunning c) d t"

section \<open>Key pair\<close>

definition charset :: string where
  "charset = ''abcdefghijklmnopqrstuvwxyzABCDEFGHIJKLMNOPQRSTUVWXYZ''"

text \<open>\<^verbatim>\<open>r.Intn(n)\<close> is a number below \<open>n\<close>, taken from the generator's next value.\<close>

definition Intn :: "env \<Rightarrow> trace \<Rightarrow> nat \<Rightarrow> nat" where
  "Intn c t n = randSource c t mod n"

text \<open>The loop \<^verbatim>\<open>for i := range b { b[i] = charset[r.Intn(len(charset))] }\<close> over \<open>n\<close> bytes.\<close>

fun randomBytes :: "env \<Rightarrow> nat \<Rightarrow> trace \<Rightarrow> string \<times> trace" where
  "randomBytes c 0 t = ([], t)"
| "randomBytes c (Suc n) t =
     (case randomBytes c n (t @ [IntnCall (length charset)]) of
        (b, t1) \<Rightarrow> ((charset ! Intn c t (length charset)) # b, t1))"

text \<open>The second half of \<^verbatim>\<open>createKeyPair\<close>, from reading the public key on.\<close>

definition importKeyPair :: "env \<Rightarrow> string \<Rightarrow> Driver \<Rightarrow> trace \<Rightarrow> error option \<times> Driver \<times> trace" where
  "importKeyPair c keyPath d t =
     (case ReadFile c t (keyPath @ ''.pub'') of
        Inl e \<Rightarrow> (Some (External e), d, t @ [ReadFileCall (keyPath @ ''.pub'')])
      | Inr publicKey \<Rightarrow>
          (case randomBytes c 5 (t @ [ReadFileCall (keyPath @ ''.pub'')]) of
             (b, t1) \<Rightarrow>
               (case ImportKeyPair c t1 (MachineName d @ ''-'' @ b) publicKey of
                  Some e \<Rightarrow> (Some (External e), d, t1 @ [ImportKeyPairCall (MachineName d @ ''-'' @ b) publicKey])
                | None \<Rightarrow> (None, d\<lparr>KeyName := MachineName d @ ''-'' @ b\<rparr>,
                           t1 @ [ImportKeyPairCall (MachineName d @ ''-'' @ b) publicKey]))))"

definition createKeyPair :: "env \<Rightarrow> Driver \<Rightarrow> trace \<Rightarrow> error option \<times> Driver \<times> trace" where
  "createKeyPair c d t =
     (if SSHPrivateKeyPath d = [] then
        (case GenerateSSHKey c t (SSHKeyPath d) of
           Some e \<Rightarrow> (Some (External e), d, t @ [GenerateSSHKeyCall (SSHKeyPath d)])
         | None \<Rightarrow> importKeyPair c (SSHKeyPath d) d (t @ [GenerateSSHKeyCall (SSHKeyPath d)]))
      else
        (case CopyFile c t (SSHPrivateKeyPath d) (SSHKeyPath d) of
           Some e \<Rightarrow> (Some (External e), d, t @ [CopyFileCall (SSHPrivateKeyPath d) (SSHKeyPath d)])
         | None \<Rightarrow>
             (if KeyName d \<noteq> [] then (None, d, t @ [CopyFileCall (SSHPrivateKeyPath d) (SSHKeyPath d)])
              else
                (case CopyFile c (t @ [CopyFileCall (SSHPrivateKeyPath d) (SSHKeyPath d)])
                        (SSHPrivateKeyPath d @ ''.pub'') (SSHKeyPath d @ ''.pub'') of
                   Some e \<Rightarrow>
                     (Some (External e), d,
                      t @ [CopyFileCall (SSHPrivateKeyPath d) (SSHKeyPath d),
                           CopyFileCall (SSHPrivateKeyPath d @ ''.pub'') (SSHKeyPath d @ ''.pub'')])
                 | None \<Rightarrow>
                     importKeyPair c (SSHPrivateKeyPath d) d
                       (t @ [CopyFileCall (SSHPrivateKeyPath d) (SSHKeyPath d),
                             CopyFileCall (SSHPrivateKeyPath d @ ''.pub'') (SSHKeyPath d @ ''.pub'')])))))"

section \<open>User data and block devices\<close>

definition Base64UserData :: "env \<Rightarrow> Driver \<Rightarrow> trace \<Rightarrow> (string \<times> error option) \<times> trace" where
  "Base64UserData c d t =
     (if UserDataFile d \<noteq> [] then
        (case ReadFile c t (UserDataFile d) of
           Inl ioerr \<Rightarrow> (([], Some errorReadingUserData), t @ [ReadFileCall (UserDataFile d)])
         | Inr buf \<Rightarrow> ((EncodeToString c buf, None), t @ [ReadFileCall (UserDataFile d)]))
      else (([], None), t))"

text \<open>
  \<^verbatim>\<open>updateBDMList\<close> writes through the pointers of \<^verbatim>\<open>d.bdmList\<close>, so the driver's own
  list changes with the returned one. \<open>updateBDM\<close> is the body of the loop for an entry
  with an EBS device.
\<close>

definition updateBDM :: "Driver \<Rightarrow> BlockDeviceMapping \<Rightarrow> EbsBlockDevice \<Rightarrow> BlockDeviceMapping" where
  "updateBDM d bdm ebs =
     (if bdm_DeviceName bdm = DeviceName d
      then bdm\<lparr>bdm_Ebs := Some (ebs\<lparr>ebs_VolumeSize := Some (RootSize d),
                                     ebs_VolumeType := Some (VolumeType d),
                                     ebs_DeleteOnTermination := Some True\<rparr>)\<rparr>
      else bdm\<lparr>bdm_Ebs := Some (ebs\<lparr>ebs_DeleteOnTermination := Some True\<rparr>)\<rparr>)"

fun updateBDMLoop :: "Driver \<Rightarrow> BlockDeviceMapping list \<Rightarrow> BlockDeviceMapping list \<times> BlockDeviceMapping list" where
  "updateBDMLoop d [] = ([], [])"
| "updateBDMLoop d (bdm # rest) =
     (case updateBDMLoop d rest of
        (out, stored) \<Rightarrow>
          (case bdm_Ebs bdm of
             None \<Rightarrow> (out, bdm # stored)
           | Some ebs \<Rightarrow> (updateBDM d bdm ebs # out, updateBDM d bdm ebs # stored)))"

definition updateBDMList :: "Driver \<Rightarrow> BlockDeviceMapping list \<times> Driver" where
  "updateBDMList d =
     (case updateBDMLoop d (bdmList d) of (out, stored) \<Rightarrow> (out, d\<lparr>bdmList := stored\<rparr>))"

section \<open>Tagging\<close>

text \<open>
  The loop \<^verbatim>\<open>for i := 0; i < len(t)-1; i += 2\<close> pairs \<^verbatim>\<open>t[i]\<close> with \<^verbatim>\<open>t[i+1]\<close>
  and leaves a last unpaired element out.
\<close>

fun tagPairs :: "string list \<Rightarrow> Tag list" where
  "tagPairs (k # v # rest) = \<lparr>tag_Key = k, tag_Value = v\<rparr> # tagPairs rest"
| "tagPairs [k] = []"
| "tagPairs [] = []"

definition configureTags :: "env \<Rightarrow> Driver \<Rightarrow> string \<Rightarrow> trace \<Rightarrow> error option outcome \<times> trace" where
  "configureTags c d tagGroups t =
     (case slice_to (MachineName d) (IndexByte (MachineName d) CHR ''-'') of
        Panic p \<Rightarrow> (Panic p, t)
      | Return ClusterName \<Rightarrow>
          (let tags = [\<lparr>tag_Key = ''Name'', tag_Value = MachineName d\<rparr>,
                       \<lparr>tag_Key = ''OscK8sClusterID/'' @ ClusterName, tag_Value = ''owned''\<rparr>,
                       \<lparr>tag_Key = ''OscK8sNodeName'', tag_Value = MachineName d\<rparr>];
               tags = (if tagGroups \<noteq> [] then tags @ tagPairs (Split tagGroups CHR '','') else tags)
           in (case CreateTags c t [InstanceId d] tags of
                 Some e \<Rightarrow> (Return (Some (External e)), t @ [CreateTagsCall [InstanceId d] tags])
               | None \<Rightarrow> (Return None, t @ [CreateTagsCall [InstanceId d] tags]))))"

section \<open>Security groups\<close>

definition ipRange :: string where "ipRange = ''0.0.0.0/0''"
definition machineSecurityGroupName :: string where "machineSecurityGroupName = ''rancher-nodes''"
definition machineTag :: string where "machineTag = ''rancher-nodes''"
definition defaultSecurityGroup :: string where "defaultSecurityGroup = machineSecurityGroupName"

definition dockerPort :: int where "dockerPort = 2376"
definition kubeApiPort :: int where "kubeApiPort = 6443"
definition httpPort :: int where "httpPort = 80"
definition httpsPort :: int where "httpsPort = 443"
definition nodeExporter :: int where "nodeExporter = 9796"
definition etcdPorts :: "int list" where "etcdPorts = [2379, 2380]"
definition vxlanPorts :: "int list" where "vxlanPorts = [4789, 4789]"
definition flannelPorts :: "int list" where "flannelPorts = [8472, 8472]"
definition otherKubePorts :: "int list" where "otherKubePorts = [10250, 10252]"
definition kubeProxyPorts :: "int list" where "kubeProxyPorts = [10256, 10256]"
definition nodePorts :: "int list" where "nodePorts = [30000, 32767]"
definition calicoPort :: int where "calicoPort = 179"

text \<open>
  \<^verbatim>\<open>strconv.ParseInt(s, 10, 0)\<close>: an optional sign, then decimal digits and nothing
  else. \<^verbatim>\<open>ParseUint\<close> reads the digits from the left into 64 bits, and stops with a
  range error at the digit that overflows them, with a syntax error at a byte that is no
  digit; the value must then fit the 64 bits of \<^verbatim>\<open>int\<close>.
\<close>

definition digitVal :: "char \<Rightarrow> int option" where
  "digitVal ch =
     (if ch = CHR ''0'' then Some 0 else if ch = CHR ''1'' then Some 1
      else if ch = CHR ''2'' then Some 2 else if ch = CHR ''3'' then Some 3
      else if ch = CHR ''4'' then Some 4 else if ch = CHR ''5'' then Some 5
      else if ch = CHR ''6'' then Some 6 else if ch = CHR ''7'' then Some 7
      else if ch = CHR ''8'' then Some 8 else if ch = CHR ''9'' then Some 9
      else None)"

fun parseDigits :: "int \<Rightarrow> string \<Rightarrow> parse_error + int" where
  "parseDigits acc [] = Inr acc"
| "parseDigits acc (ch # s) =
     (case digitVal ch of
        None \<Rightarrow> Inl ErrSyntax
      | Some v \<Rightarrow> (if 10 * acc + v \<ge> 2 ^ 64 then Inl ErrRange else parseDigits (10 * acc + v) s))"

definition ParseUint :: "string \<Rightarrow> parse_error + int" where
  "ParseUint s = (if s = [] then Inl ErrSyntax else parseDigits 0 s)"

definition ParseInt :: "string \<Rightarrow> parse_error + int" where
  "ParseInt s =
     (if s = [] then Inl ErrSyntax
      else
        (let neg = (hd s = CHR ''-'');
             s1 = (if hd s = CHR ''+'' \<or> hd s = CHR ''-'' then tl s else s)
         in (case ParseUint s1 of
               Inl err \<Rightarrow> Inl err
             | Inr un \<Rightarrow>
                 (if \<not> neg \<and> un \<ge> 2 ^ 63 then Inl ErrRange
                  else if neg \<and> un > 2 ^ 63 then Inl ErrRange
                  else Inr (if neg then - un else un)))))"

text \<open>
  \<^verbatim>\<open>driverutil.SplitPortProto\<close> belongs to the host tool's library: it splits
  \<^verbatim>\<open>port/protocol\<close> at the first slash, and the protocol is \<^verbatim>\<open>tcp\<close> when there is
  no slash.
\<close>

definition SplitPortProto :: "string \<Rightarrow> string \<times> string" where
  "SplitPortProto raw =
     (if CHR ''/'' \<in> set raw
      then (takeWhile (\<lambda>ch. ch \<noteq> CHR ''/'') raw, tl (dropWhile (\<lambda>ch. ch \<noteq> CHR ''/'') raw))
      else (raw, ''tcp''))"

fun hasTagKey :: "Tag list \<Rightarrow> string \<Rightarrow> bool" where
  "hasTagKey [] key = False"
| "hasTagKey (tag # tags) key = (if tag_Key tag = key then True else hasTagKey tags key)"

text \<open>The map \<^verbatim>\<open>hasPortsInbound\<close>; reading a key that is not there gives false.\<close>

definition hasPortsInbound :: "IpPermission list \<Rightarrow> (string \<rightharpoonup> bool)" where
  "hasPortsInbound perms =
     foldl (\<lambda>m p. case FromPort p of
                    None \<Rightarrow> m
                  | Some fromPort \<Rightarrow> m(itoa fromPort @ ''/'' @ IpProtocol p \<mapsto> True))
           Map.empty perms"

definition lookupBool :: "(string \<rightharpoonup> bool) \<Rightarrow> string \<Rightarrow> bool" where
  "lookupBool m k = (case m k of None \<Rightarrow> False | Some b \<Rightarrow> b)"

text \<open>A permission open to any source, and one restricted to the group itself.\<close>

definition permAnySource :: "string \<Rightarrow> int \<Rightarrow> int \<Rightarrow> IpPermission" where
  "permAnySource proto fromPort toPort =
     \<lparr>IpProtocol = proto, FromPort = Some fromPort, ToPort = Some toPort,
      IpRanges = [ipRange], UserIdGroupPairs = []\<rparr>"

definition permSameGroup :: "string \<Rightarrow> int \<Rightarrow> int \<Rightarrow> string \<Rightarrow> IpPermission" where
  "permSameGroup proto fromPort toPort groupId =
     \<lparr>IpProtocol = proto, FromPort = Some fromPort, ToPort = Some toPort,
      IpRanges = [], UserIdGroupPairs = [groupId]\<rparr>"

text \<open>\<^verbatim>\<open>if !hasPortsInbound[key] { inboundPerms = append(inboundPerms, perm) }\<close>\<close>

definition appendMissing :: "(string \<rightharpoonup> bool) \<Rightarrow> string \<Rightarrow> IpPermission \<Rightarrow> IpPermission list \<Rightarrow> IpPermission list" where
  "appendMissing has key perm inboundPerms =
     (if \<not> lookupBool has key then inboundPerms @ [perm] else inboundPerms)"

text \<open>The loop over \<^verbatim>\<open>d.OpenPorts\<close>; the key is built from the port as it was written.\<close>

fun openPortPerms :: "(string \<rightharpoonup> bool) \<Rightarrow> string list \<Rightarrow> IpPermission list \<Rightarrow> error + IpPermission list" where
  "openPortPerms has [] inboundPerms = Inr inboundPerms"
| "openPortPerms has (p # ps) inboundPerms =
     (case SplitPortProto p of
        (port, protocol) \<Rightarrow>
          (case ParseInt port of
             Inl err \<Rightarrow> Inl (Errorf (''invalid port number '' @ port @ '': '') (NumError ''ParseInt'' port err))
           | Inr portNum \<Rightarrow>
               openPortPerms has ps
                 (appendMissing has (port @ ''/'' @ protocol)
                    (permAnySource protocol portNum portNum) inboundPerms)))"

definition configureSecurityGroupPermissions :: "Driver \<Rightarrow> SecurityGroup \<Rightarrow> error + IpPermission list" where
  "configureSecurityGroupPermissions d securityGroup =
     (let has = hasPortsInbound (sg_IpPermissions securityGroup);
          gid = sg_GroupId securityGroup;
          inboundPerms = [];
          inboundPerms = appendMissing has ''22/tcp'' (permAnySource ''tcp'' 22 22) inboundPerms;
          inboundPerms = appendMissing has (itoa dockerPort @ ''/tcp'')
                           (permAnySource ''tcp'' dockerPort dockerPort) inboundPerms;
          inboundPerms =
            (if sg_GroupName securityGroup = defaultSecurityGroup \<and> hasTagKey (sg_Tags securityGroup) machineSecurityGroupName
             then
               (let inboundPerms = appendMissing has (itoa kubeApiPort @ ''/tcp'')
                      (permAnySource ''tcp'' kubeApiPort kubeApiPort) inboundPerms;
                    inboundPerms = appendMissing has (itoa (etcdPorts ! 0) @ ''/tcp'')
                      (permSameGroup ''tcp'' (etcdPorts ! 0) (etcdPorts ! 1) gid) inboundPerms;
                    inboundPerms = appendMissing has (itoa (vxlanPorts ! 0) @ ''/udp'')
                      (permSameGroup ''udp'' (vxlanPorts ! 0) (vxlanPorts ! 1) gid) inboundPerms;
                    inboundPerms = appendMissing has (itoa (flannelPorts ! 0) @ ''/udp'')
                      (permSameGroup ''udp'' (flannelPorts ! 0) (flannelPorts ! 1) gid) inboundPerms;
                    inboundPerms = appendMissing has (itoa (otherKubePorts ! 0) @ ''/tcp'')
                      (permSameGroup ''tcp'' (otherKubePorts ! 0) (otherKubePorts ! 1) gid) inboundPerms;
                    inboundPerms = appendMissing has (itoa (kubeProxyPorts ! 0) @ ''/tcp'')
                      (permSameGroup ''tcp'' (kubeProxyPorts ! 0) (kubeProxyPorts ! 1) gid) inboundPerms;
                    inboundPerms = appendMissing has (itoa nodeExporter @ ''/tcp'')
                      (permSameGroup ''tcp'' nodeExporter nodeExporter gid) inboundPerms;
                    inboundPerms = appendMissing has (itoa (nodePorts ! 0) @ ''/tcp'')
                      (permAnySource ''tcp'' (nodePorts ! 0) (nodePorts ! 1)) inboundPerms;
                    inboundPerms = appendMissing has (itoa (nodePorts ! 0) @ ''/udp'')
                      (permAnySource ''udp'' (nodePorts ! 0) (nodePorts ! 1)) inboundPerms;
                    inboundPerms = appendMissing has (itoa httpPort @ ''/tcp'')
                      (permAnySource ''tcp'' httpPort httpPort) inboundPerms;
                    inboundPerms = appendMissing has (itoa httpsPort @ ''/tcp'')
                      (permAnySource ''tcp'' httpsPort httpsPort) inboundPerms;
                    inboundPerms = appendMissing has (itoa calicoPort @ ''/tcp'')
                      (permSameGroup ''tcp'' calicoPort calicoPort gid) inboundPerms
                in inboundPerms)
             else inboundPerms)
      in openPortPerms has (OpenPorts d) inboundPerms)"

text \<open>The predicate that \<^verbatim>\<open>securityGroupAvailableFunc(id)\<close> returns.\<close>

definition securityGroupAvailableFunc :: "env \<Rightarrow> string \<Rightarrow> Driver \<Rightarrow> trace \<Rightarrow> bool outcome \<times> Driver \<times> trace" where
  "securityGroupAvailableFunc c gid d t =
     (case DescribeSecurityGroups c t (GroupIds [gid]) of
        Inr sgs \<Rightarrow> (Return (length sgs > 0), d, t @ [DescribeSecurityGroupsCall (GroupIds [gid])])
      | Inl e \<Rightarrow> (Return False, d, t @ [DescribeSecurityGroupsCall (GroupIds [gid])]))"

text \<open>
  The body of the loop of \<^verbatim>\<open>configureSecurityGroups\<close>, in the order of the source:
  \<open>awaitGroup\<close> sets the tag on the local copy of a new group and waits for the
  group; \<open>tagGroup\<close> tags the new group at the provider; \<open>resolveGroup\<close> finds the
  group among the described ones or creates it; \<open>configureSecurityGroup\<close> records
  the group's id and authorizes the missing permissions.
\<close>

definition awaitGroup :: "env \<Rightarrow> SecurityGroup \<Rightarrow> Driver \<Rightarrow> trace \<Rightarrow> (error + SecurityGroup) outcome \<times> Driver \<times> trace" where
  "awaitGroup c securityGroup d t =
     (case WaitFor c (securityGroupAvailableFunc c (sg_GroupId securityGroup)) d t of
        (Panic p, d1, t1) \<Rightarrow> (Panic p, d1, t1)
      | (Return (Some err), d1, t1) \<Rightarrow> (Return (Inl err), d1, t1)
      | (Return None, d1, t1) \<Rightarrow>
          (Return (Inr (securityGroup\<lparr>sg_Tags := [\<lparr>tag_Key = machineTag, tag_Value = version_Version c\<rparr>]\<rparr>)),
           d1, t1))"

definition tagGroup :: "env \<Rightarrow> SecurityGroup \<Rightarrow> Driver \<Rightarrow> trace \<Rightarrow> (error + SecurityGroup) outcome \<times> Driver \<times> trace" where
  "tagGroup c securityGroup d t =
     (case CreateTags c t [sg_GroupId securityGroup] [\<lparr>tag_Key = machineTag, tag_Value = version_Version c\<rparr>] of
        Some e \<Rightarrow>
          (if \<not> Contains e ''already exists''
           then (Return (Inl (Errorf ''can't create tag for security group. err: '' (External e))), d,
                 t @ [CreateTagsCall [sg_GroupId securityGroup] [\<lparr>tag_Key = machineTag, tag_Value = version_Version c\<rparr>]])
           else awaitGroup c securityGroup d
                  (t @ [CreateTagsCall [sg_GroupId securityGroup] [\<lparr>tag_Key = machineTag, tag_Value = version_Version c\<rparr>]]))
      | None \<Rightarrow>
          awaitGroup c securityGroup d
            (t @ [CreateTagsCall [sg_GroupId securityGroup] [\<lparr>tag_Key = machineTag, tag_Value = version_Version c\<rparr>]]))"

definition resolveGroup :: "env \<Rightarrow> (string \<rightharpoonup> SecurityGroup) \<Rightarrow> string \<Rightarrow> Driver \<Rightarrow> trace \<Rightarrow>
    (error + SecurityGroup) outcome \<times> Driver \<times> trace" where
  "resolveGroup c groupsByName groupName d t =
     (case groupsByName groupName of
        Some securityGroup \<Rightarrow> (Return (Inr securityGroup), d, t)
      | None \<Rightarrow>
          (case CreateSecurityGroup c t groupName ''Rancher Nodes'' (VpcId d) of
             Inl e \<Rightarrow>
               (if \<not> Contains e ''already exists''
                then (Return (Inl (External e)), d, t @ [CreateSecurityGroupCall groupName ''Rancher Nodes'' (VpcId d)])
                else
                  (case DescribeSecurityGroups c (t @ [CreateSecurityGroupCall groupName ''Rancher Nodes'' (VpcId d)])
                          (Filters [(''group-name'', [groupName]), (''vpc-id'', [VpcId d])]) of
                     Inl e2 \<Rightarrow>
                       (Return (Inl (External e2)), d,
                        t @ [CreateSecurityGroupCall groupName ''Rancher Nodes'' (VpcId d),
                             DescribeSecurityGroupsCall (Filters [(''group-name'', [groupName]), (''vpc-id'', [VpcId d])])])
                   | Inr [] \<Rightarrow>
                       (Return (Inl (ErrorNew ''can't find security group'')), d,
                        t @ [CreateSecurityGroupCall groupName ''Rancher Nodes'' (VpcId d),
                             DescribeSecurityGroupsCall (Filters [(''group-name'', [groupName]), (''vpc-id'', [VpcId d])])])
                   | Inr (found # _) \<Rightarrow>
                       tagGroup c found d
                         (t @ [CreateSecurityGroupCall groupName ''Rancher Nodes'' (VpcId d),
                               DescribeSecurityGroupsCall (Filters [(''group-name'', [groupName]), (''vpc-id'', [VpcId d])])])))
           | Inr groupId \<Rightarrow>
               tagGroup c
                 \<lparr>sg_GroupId = groupId, sg_GroupName = groupName, sg_VpcId = VpcId d,
                  sg_IpPermissions = [], sg_Tags = []\<rparr>
                 d (t @ [CreateSecurityGroupCall groupName ''Rancher Nodes'' (VpcId d)])))"

definition configureSecurityGroup :: "env \<Rightarrow> (string \<rightharpoonup> SecurityGroup) \<Rightarrow> string \<Rightarrow> Driver \<Rightarrow> trace \<Rightarrow>
    error option outcome \<times> Driver \<times> trace" where
  "configureSecurityGroup c groupsByName groupName d t =
     (case resolveGroup c groupsByName groupName d t of
        (Panic p, d1, t1) \<Rightarrow> (Panic p, d1, t1)
      | (Return (Inl err), d1, t1) \<Rightarrow> (Return (Some err), d1, t1)
      | (Return (Inr securityGroup), d1, t1) \<Rightarrow>
          (case configureSecurityGroupPermissions
                  (d1\<lparr>SecurityGroupIds := SecurityGroupIds d1 @ [sg_GroupId securityGroup]\<rparr>) securityGroup of
             Inl err \<Rightarrow>
               (Return (Some err), d1\<lparr>SecurityGroupIds := SecurityGroupIds d1 @ [sg_GroupId securityGroup]\<rparr>, t1)
           | Inr inboundPerms \<Rightarrow>
               (if length inboundPerms \<noteq> 0 then
                  (case AuthorizeSecurityGroupIngress c t1 (sg_GroupId securityGroup) inboundPerms of
                     Some e \<Rightarrow>
                       (if \<not> Contains e ''already exists''
                        then (Return (Some (External e)),
                              d1\<lparr>SecurityGroupIds := SecurityGroupIds d1 @ [sg_GroupId securityGroup]\<rparr>,
                              t1 @ [AuthorizeSecurityGroupIngressCall (sg_GroupId securityGroup) inboundPerms])
                        else (Return None,
                              d1\<lparr>SecurityGroupIds := SecurityGroupIds d1 @ [sg_GroupId securityGroup]\<rparr>,
                              t1 @ [AuthorizeSecurityGroupIngressCall (sg_GroupId securityGroup) inboundPerms]))
                   | None \<Rightarrow>
                       (Return None,
                        d1\<lparr>SecurityGroupIds := SecurityGroupIds d1 @ [sg_GroupId securityGroup]\<rparr>,
                        t1 @ [AuthorizeSecurityGroupIngressCall (sg_GroupId securityGroup) inboundPerms]))
                else
                  (Return None, d1\<lparr>SecurityGroupIds := SecurityGroupIds d1 @ [sg_GroupId securityGroup]\<rparr>, t1))))"

fun configureSecurityGroupsLoop :: "env \<Rightarrow> (string \<rightharpoonup> SecurityGroup) \<Rightarrow> string list \<Rightarrow> Driver \<Rightarrow> trace \<Rightarrow>
    error option outcome \<times> Driver \<times> trace" where
  "configureSecurityGroupsLoop c groupsByName [] d t = (Return None, d, t)"
| "configureSecurityGroupsLoop c groupsByName (groupName # rest) d t =
     (case configureSecurityGroup c groupsByName groupName d t of
        (Panic p, d1, t1) \<Rightarrow> (Panic p, d1, t1)
      | (Return (Some err), d1, t1) \<Rightarrow> (Return (Some err), d1, t1)
      | (Return None, d1, t1) \<Rightarrow> configureSecurityGroupsLoop c groupsByName rest d1 t1)"

definition configureSecurityGroups :: "env \<Rightarrow> string list \<Rightarrow> Driver \<Rightarrow> trace \<Rightarrow>
    error option outcome \<times> Driver \<times> trace" where
  "configureSecurityGroups c groupNames d t =
     (if length groupNames = 0 then (Return None, d, t)
      else
        (case DescribeSecurityGroups c t (Filters [(''group-name'', groupNames), (''vpc-id'', [VpcId d])]) of
           Inl e \<Rightarrow>
             (Return (Some (External e)), d,
              t @ [DescribeSecurityGroupsCall (Filters [(''group-name'', groupNames), (''vpc-id'', [VpcId d])])])
         | Inr groups \<Rightarrow>
             configureSecurityGroupsLoop c
               (foldl (\<lambda>m securityGroup. m(sg_GroupName securityGroup \<mapsto> securityGroup)) Map.empty groups)
               groupNames d
               (t @ [DescribeSecurityGroupsCall (Filters [(''group-name'', groupNames), (''vpc-id'', [VpcId d])])])))"

section \<open>Creation\<close>

definition migrateStringToSlice :: "string \<Rightarrow> string list \<Rightarrow> string list" where
  "migrateStringToSlice v vs = (if v \<noteq> [] then [v] @ vs else vs)"

definition securityGroupNames :: "Driver \<Rightarrow> string list" where
  "securityGroupNames d = migrateStringToSlice (SecurityGroupName d) (SecurityGroupNames d)"

definition securityGroupIds :: "Driver \<Rightarrow> string list" where
  "securityGroupIds d = migrateStringToSlice (SecurityGroupId d) (SecurityGroupIds d)"

definition getRegionZone :: "Driver \<Rightarrow> string" where
  "getRegionZone d = (if Endpoint d = [] then Region d @ Zone d else Zone d)"

text \<open>
  \<^verbatim>\<open>innerCreate\<close>, in the order of the source and cut in five parts:
  \<open>tagInstance\<close> is its end, the call of \<^verbatim>\<open>configureTags\<close>; \<open>finishCreate\<close> records the
  private address and sets the metadata options; \<open>assignAddress\<close> allocates and
  associates the external address and waits for it; \<open>launchInstance\<close> runs the instance
  and waits for it (the result of that wait is dropped); \<open>innerCreate\<close> itself holds the
  key pair, the security groups and the user data.
\<close>

definition tagInstance :: "env \<Rightarrow> Driver \<Rightarrow> trace \<Rightarrow> error option outcome \<times> Driver \<times> trace" where
  "tagInstance c d t =
     (case configureTags c d (Tags d) t of
        (Panic p, t1) \<Rightarrow> (Panic p, d, t1)
      | (Return (Some err), t1) \<Rightarrow>
          (Return (Some (Errorf (''Unable to tag instance '' @ InstanceId d @ '': '') err)), d, t1)
      | (Return None, t1) \<Rightarrow> (Return None, d, t1))"

definition finishCreate :: "env \<Rightarrow> Instance \<Rightarrow> Driver \<Rightarrow> trace \<Rightarrow> error option outcome \<times> Driver \<times> trace" where
  "finishCreate c inst d t =
     (let d1 = (case inst_PrivateIpAddress inst of None \<Rightarrow> d | Some ip \<Rightarrow> d\<lparr>PrivateIPAddress := ip\<rparr>)
      in if HttpEndpoint d1 \<noteq> [] \<or> HttpTokens d1 \<noteq> [] then
           (case ModifyInstanceMetadataOptions c t (InstanceId d1) (HttpEndpoint d1) (HttpTokens d1) of
              Some e \<Rightarrow>
                (Return (Some (Errorf ''Error modifying instance metadata options for instance: '' (External e))),
                 d1, t @ [ModifyInstanceMetadataOptionsCall (InstanceId d1) (HttpEndpoint d1) (HttpTokens d1)])
            | None \<Rightarrow>
                tagInstance c d1
                  (t @ [ModifyInstanceMetadataOptionsCall (InstanceId d1) (HttpEndpoint d1) (HttpTokens d1)]))
         else tagInstance c d1 t)"

definition assignAddress :: "env \<Rightarrow> Instance \<Rightarrow> Driver \<Rightarrow> trace \<Rightarrow> error option outcome \<times> Driver \<times> trace" where
  "assignAddress c inst d t =
     (case AllocateAddress c t ''vpc'' of
        Inl e \<Rightarrow>
          (Return (Some (Errorf ''Error allocating external IP: '' (External e))), d,
           t @ [AllocateAddressCall ''vpc''])
      | Inr (allocationId, publicIp) \<Rightarrow>
          (case AssociateAddress c (t @ [AllocateAddressCall ''vpc'']) allocationId (InstanceId d) publicIp of
             Some e \<Rightarrow>
               (Return (Some (Errorf ''Error associating external IP: '' (External e))),
                d\<lparr>AllocationId := allocationId, PublicIp := publicIp\<rparr>,
                t @ [AllocateAddressCall ''vpc'', AssociateAddressCall allocationId (InstanceId d) publicIp])
           | None \<Rightarrow>
               (case WaitFor c (instanceIpAvailable c) (d\<lparr>AllocationId := allocationId, PublicIp := publicIp\<rparr>)
                       (t @ [AllocateAddressCall ''vpc'', AssociateAddressCall allocationId (InstanceId d) publicIp]) of
                  (Panic p, d1, t1) \<Rightarrow> (Panic p, d1, t1)
                | (Return (Some err), d1, t1) \<Rightarrow> (Return (Some err), d1, t1)
                | (Return None, d1, t1) \<Rightarrow> finishCreate c inst d1 t1)))"

definition runInstancesInput :: "Driver \<Rightarrow> BlockDeviceMapping list \<Rightarrow> string \<Rightarrow> RunInstancesInput" where
  "runInstancesInput d bdms userdata =
     \<lparr>ri_ImageId = AMI d, ri_MinCount = 1, ri_MaxCount = 1,
      ri_AvailabilityZone = getRegionZone d,
      ri_KeyName = KeyName d, ri_InstanceType = InstanceType d,
      ri_NetworkInterfaces =
        [\<lparr>ni_DeviceIndex = 0, ni_Groups = securityGroupIds d, ni_SubnetId = SubnetId d,
          ni_AssociatePublicIpAddress = (\<not> PrivateIPOnly d)\<rparr>],
      ri_IamInstanceProfile = IamInstanceProfile d,
      ri_EbsOptimized = UseEbsOptimizedInstance d,
      ri_BlockDeviceMappings = bdms, ri_UserData = userdata\<rparr>"

definition launchInstance :: "env \<Rightarrow> string \<Rightarrow> Driver \<Rightarrow> trace \<Rightarrow> error option outcome \<times> Driver \<times> trace" where
  "launchInstance c userdata d t =
     (case updateBDMList d of
        (bdms, d1) \<Rightarrow>
          (case RunInstances c t (runInstancesInput d1 bdms userdata) of
             Inl e \<Rightarrow>
               (Return (Some (Errorf ''Error launching instance: '' (External e))), d1,
                t @ [RunInstancesCall (runInstancesInput d1 bdms userdata)])
           | Inr [] \<Rightarrow> (Panic IndexOutOfRange, d1, t @ [RunInstancesCall (runInstancesInput d1 bdms userdata)])
           | Inr (inst # _) \<Rightarrow>
               (case waitForInstance c (d1\<lparr>InstanceId := inst_InstanceId inst\<rparr>)
                       (t @ [RunInstancesCall (runInstancesInput d1 bdms userdata)]) of
                  (Panic p, d2, t2) \<Rightarrow> (Panic p, d2, t2)
                | (Return waited, d2, t2) \<Rightarrow> assignAddress c inst d2 t2)))"

definition innerCreate :: "env \<Rightarrow> Driver \<Rightarrow> trace \<Rightarrow> error option outcome \<times> Driver \<times> trace" where
  "innerCreate c d t =
     (case createKeyPair c d t of
        (Some err, d1, t1) \<Rightarrow> (Return (Some (Errorf ''unable to create key pair: '' err)), d1, t1)
      | (None, d1, t1) \<Rightarrow>
          (case configureSecurityGroups c (securityGroupNames d1) d1 t1 of
             (Panic p, d2, t2) \<Rightarrow> (Panic p, d2, t2)
           | (Return (Some err), d2, t2) \<Rightarrow> (Return (Some err), d2, t2)
           | (Return None, d2, t2) \<Rightarrow>
               (case Base64UserData c d2 t2 of
                  ((b64, Some err), t3) \<Rightarrow> (Return (Some err), d2, t3)
                | ((b64, None), t3) \<Rightarrow> launchInstance c b64 d2 t3)))"

text \<open>\<^verbatim>\<open>Create\<close>: what \<^verbatim>\<open>d.Remove()\<close> returns is not bound to anything.\<close>

definition Create :: "env \<Rightarrow> Driver \<Rightarrow> trace \<Rightarrow> error option outcome \<times> Driver \<times> trace" where
  "Create c d t =
     (case innerCreate c d t of
        (Panic p, d1, t1) \<Rightarrow> (Panic p, d1, t1)
      | (Return (Some err), d1, t1) \<Rightarrow>
          (case Remove c d1 t1 of
             (Panic p, t2) \<Rightarrow> (Panic p, d1, t2)
           | (Return removed, t2) \<Rightarrow> (Return (Some err), d1, t2))
      | (Return None, d1, t1) \<Rightarrow> (Return None, d1, t1))"

section \<open>Concrete worlds and drivers\<close>

text \<open>
  A world in which every call succeeds, and a driver for the host \<^verbatim>\<open>web-1\<close>; the
  theorems below are tried on them and on variants in which one call fails.
\<close>

definition exampleInstance :: Instance where
  "exampleInstance =
     \<lparr>inst_InstanceId = ''i-0a1'', inst_StateName = ''running'',
      inst_PrivateIpAddress = Some ''10.0.0.5'', inst_PublicIpAddress = Some ''203.0.113.7'',
      inst_KeyName = Some ''web-1-key''\<rparr>"

definition exampleEnv :: env where
  "exampleEnv =
     \<lparr>GenerateSSHKey = (\<lambda>t path. None),
      CopyFile = (\<lambda>t src dst. None),
      ReadFile = (\<lambda>t path. if path = ''/m/user-data'' then Inr ''#!/bin/sh'' else Inr ''ssh-rsa AAAA''),
      randSource = (\<lambda>t. 7 * length t),
      EncodeToString = (\<lambda>buf. ''b64:'' @ buf),
      version_Version = ''0.16.2'',
      waitMaxAttempts = Suc (Suc (Suc 0)),
      ImportKeyPair = (\<lambda>t name material. None),
      DescribeSecurityGroups =
        (\<lambda>t inp. case inp of
                   Filters fs \<Rightarrow> Inr []
                 | GroupIds ids \<Rightarrow>
                     Inr [\<lparr>sg_GroupId = ''sg-1'', sg_GroupName = ''rancher-nodes'', sg_VpcId = ''vpc-1'',
                           sg_IpPermissions = [], sg_Tags = []\<rparr>]),
      CreateSecurityGroup = (\<lambda>t name description vpc. Inr ''sg-1''),
      CreateTags = (\<lambda>t resources tags. None),
      AuthorizeSecurityGroupIngress = (\<lambda>t gid perms. None),
      RunInstances = (\<lambda>t inp. Inr [exampleInstance]),
      DescribeInstances = (\<lambda>t ids. Inr [\<lparr>res_Instances = [exampleInstance]\<rparr>]),
      AllocateAddress = (\<lambda>t domain. Inr (''eipalloc-1'', ''203.0.113.7'')),
      AssociateAddress = (\<lambda>t allocation inst ip. None),
      ModifyInstanceMetadataOptions = (\<lambda>t inst endpoint tokens. None),
      TerminateInstances = (\<lambda>t ids. None),
      DeleteKeyPair = (\<lambda>t name. None)\<rparr>"

definition exampleDriver :: Driver where
  "exampleDriver =
     \<lparr>MachineName = ''web-1'', IPAddress = [], SSHKeyPath = ''/m/id_rsa'',
      Region = ''us-east-2'', AMI = ''ami-e90bc65c'', ExistingKey = False, KeyName = [],
      InstanceId = [], InstanceType = ''m5.xlarge'', PrivateIPAddress = [],
      SecurityGroupId = [], SecurityGroupIds = [], SecurityGroupName = [],
      SecurityGroupNames = [], OpenPorts = [], Tags = [],
      DeviceName = ''/dev/sda1'', RootSize = 30, VolumeType = ''gp2'',
      IamInstanceProfile = [], VpcId = ''vpc-1'', SubnetId = ''subnet-1'', Zone = ''a'',
      PrivateIPOnly = False, UsePrivateIP = False, UseEbsOptimizedInstance = False,
      SSHPrivateKeyPath = [], Endpoint = [], UserDataFile = [],
      bdmList =
        [\<lparr>bdm_DeviceName = ''/dev/sda1'',
          bdm_Ebs = Some \<lparr>ebs_VolumeSize = Some 8, ebs_VolumeType = Some ''standard'',
                           ebs_DeleteOnTermination = Some False\<rparr>\<rparr>,
         \<lparr>bdm_DeviceName = ''/dev/sdb'',
          bdm_Ebs = Some \<lparr>ebs_VolumeSize = Some 100, ebs_VolumeType = Some ''io1'',
                           ebs_DeleteOnTermination = None\<rparr>\<rparr>,
         \<lparr>bdm_DeviceName = ''/dev/sdc'', bdm_Ebs = None\<rparr>],
      HttpEndpoint = [], HttpTokens = [], AllocationId = [], PublicIp = []\<rparr>"

text \<open>A driver whose instance and key pair exist, as after a creation that went through.\<close>

definition createdDriver :: Driver where
  "createdDriver = exampleDriver\<lparr>InstanceId := ''i-0a1'', KeyName := ''web-1-key''\<rparr>"



definition launchFailsEnv :: env where
  "launchFailsEnv =
     exampleEnv\<lparr>RunInstances := (\<lambda>t inp. Inl ''InsufficientInstanceCapacity''),
                 DescribeInstances := (\<lambda>t ids. Inl ''InvalidInstanceID.Malformed'')\<rparr>"



text \<open>
  A security group that already has the inbound permissions for the ports 22, 2376 and
  80 over tcp, and a world whose provider knows that group.
\<close>

definition provisionedGroup :: SecurityGroup where
  "provisionedGroup =
     \<lparr>sg_GroupId = ''sg-7'', sg_GroupName = ''web-sg'', sg_VpcId = ''vpc-1'',
      sg_IpPermissions =
        [\<lparr>IpProtocol = ''tcp'', FromPort = Some 22, ToPort = Some 22,
          IpRanges = [''0.0.0.0/0''], UserIdGroupPairs = []\<rparr>,
         \<lparr>IpProtocol = ''tcp'', FromPort = Some 2376, ToPort = Some 2376,
          IpRanges = [''0.0.0.0/0''], UserIdGroupPairs = []\<rparr>,
         \<lparr>IpProtocol = ''tcp'', FromPort = Some 80, ToPort = Some 80,
          IpRanges = [''0.0.0.0/0''], UserIdGroupPairs = []\<rparr>],
      sg_Tags = []\<rparr>"

definition provisionedEnv :: env where
  "provisionedEnv = exampleEnv\<lparr>DescribeSecurityGroups := (\<lambda>t inp. Inr [provisionedGroup])\<rparr>"

section \<open>Facts about the traces\<close>

lemma terminate_trace:
  "snd (terminate c d t) = (if InstanceId d = [] then t else t @ [TerminateInstancesCall [InstanceId d]])"
  by (simp add: terminate_def split: option.splits)

lemma getInstance_trace:
  "snd (getInstance c d t) = t @ [DescribeInstancesCall [InstanceId d]]"
  by (simp add: getInstance_def split: sum.splits list.splits)

lemma updateBDMLoop_out:
  "fst (updateBDMLoop d bs) =
     map (\<lambda>b. updateBDM d b (the (bdm_Ebs b))) (filter (\<lambda>b. bdm_Ebs b \<noteq> None) bs)"
  by (induction bs) (auto split: prod.splits option.splits)

section \<open>Teardown\<close>

text \<open>
  Claim C4. \<^verbatim>\<open>terminate\<close> returns nil when the recorded instance id is empty, and
  then it makes no call. With an id it makes the one terminate call, and returns nil when
  the call succeeds or answers with an error whose text starts with
  \<^verbatim>\<open>unknown instance\<close> or \<^verbatim>\<open>InvalidInstanceID.NotFound\<close>; only another failure of
  the call is returned, wrapped as "unable to terminate instance".
\<close>

theorem terminate_gone_is_success:
  "(InstanceId d = [] \<longrightarrow> terminate c d t = (None, t)) \<and>
   (InstanceId d \<noteq> [] \<longrightarrow>
      snd (terminate c d t) = t @ [TerminateInstancesCall [InstanceId d]] \<and>
      fst (terminate c d t) =
        (case TerminateInstances c t [InstanceId d] of
           None \<Rightarrow> None
         | Some e \<Rightarrow>
             if HasPrefix e ''unknown instance'' \<or> HasPrefix e ''InvalidInstanceID.NotFound''
             then None
             else Some (Errorf ''unable to terminate instance: '' (External e))))"
  by (simp add: terminate_def split: option.splits)

theorem terminate_gone_is_success_witness:
  "InstanceId exampleDriver = [] \<and>
   terminate (exampleEnv\<lparr>TerminateInstances := \<lambda>t ids. Some ''boom''\<rparr>) exampleDriver [] = (None, []) \<and>
   InstanceId createdDriver \<noteq> [] \<and>
   terminate (exampleEnv\<lparr>TerminateInstances := \<lambda>t ids. Some ''InvalidInstanceID.NotFound: The instance ID does not exist''\<rparr>)
     createdDriver [] = (None, [TerminateInstancesCall [''i-0a1'']]) \<and>
   terminate (exampleEnv\<lparr>TerminateInstances := \<lambda>t ids. Some ''unknown instance i-0a1''\<rparr>)
     createdDriver [] = (None, [TerminateInstancesCall [''i-0a1'']]) \<and>
   terminate (exampleEnv\<lparr>TerminateInstances := \<lambda>t ids. Some ''RequestLimitExceeded''\<rparr>)
     createdDriver [] =
       (Some (Errorf ''unable to terminate instance: '' (External ''RequestLimitExceeded'')),
        [TerminateInstancesCall [''i-0a1'']])"
  using terminate_gone_is_success [of exampleDriver "exampleEnv\<lparr>TerminateInstances := \<lambda>t ids. Some ''boom''\<rparr>" "[]"]
    terminate_gone_is_success [of createdDriver "exampleEnv\<lparr>TerminateInstances := \<lambda>t ids. Some ''InvalidInstanceID.NotFound: The instance ID does not exist''\<rparr>" "[]"]
    terminate_gone_is_success [of createdDriver "exampleEnv\<lparr>TerminateInstances := \<lambda>t ids. Some ''unknown instance i-0a1''\<rparr>" "[]"]
    terminate_gone_is_success [of createdDriver "exampleEnv\<lparr>TerminateInstances := \<lambda>t ids. Some ''RequestLimitExceeded''\<rparr>" "[]"]
  by (simp add: exampleDriver_def createdDriver_def exampleEnv_def HasPrefix_def prod_eq_iff)




section \<open>Queries\<close>

text \<open>
  Claim C6. When the instance can be queried, \<^verbatim>\<open>GetIP\<close> returns the private address
  as soon as \<open>PrivateIPOnly\<close> or \<open>UsePrivateIP\<close> is set, whether or not the instance
  has a public address, and the public address otherwise; when the address it has to
  return is absent, it returns the error "No private IP for instance" (private) or
  "No IP for instance" (public), followed by the instance id.
\<close>

theorem GetIP_policy:
  assumes "fst (getInstance c d t) = Return (Inr inst)"
  shows "((PrivateIPOnly d \<or> UsePrivateIP d) \<longrightarrow>
            fst (GetIP c d t) =
              (case inst_PrivateIpAddress inst of
                 Some ip \<Rightarrow> Return (ip, None)
               | None \<Rightarrow> Return ([], Some (ErrorNew (''No private IP for instance '' @ inst_InstanceId inst))))) \<and>
         (\<not> PrivateIPOnly d \<and> \<not> UsePrivateIP d \<longrightarrow>
            fst (GetIP c d t) =
              (case inst_PublicIpAddress inst of
                 Some ip \<Rightarrow> Return (ip, None)
               | None \<Rightarrow> Return ([], Some (ErrorNew (''No IP for instance '' @ inst_InstanceId inst)))))"
  using assms by (auto simp: GetIP_def split: prod.splits option.splits outcome.splits sum.splits)

theorem GetIP_policy_witness:
  "fst (getInstance exampleEnv (createdDriver\<lparr>UsePrivateIP := True\<rparr>) []) = Return (Inr exampleInstance) \<and>
   inst_PublicIpAddress exampleInstance = Some ''203.0.113.7'' \<and>
   fst (GetIP exampleEnv (createdDriver\<lparr>UsePrivateIP := True\<rparr>) []) = Return (''10.0.0.5'', None) \<and>
   fst (getInstance (exampleEnv\<lparr>DescribeInstances :=
          \<lambda>t ids. Inr [\<lparr>res_Instances = [exampleInstance\<lparr>inst_PublicIpAddress := None\<rparr>]\<rparr>]\<rparr>) createdDriver []) =
     Return (Inr (exampleInstance\<lparr>inst_PublicIpAddress := None\<rparr>)) \<and>
   fst (GetIP (exampleEnv\<lparr>DescribeInstances :=
          \<lambda>t ids. Inr [\<lparr>res_Instances = [exampleInstance\<lparr>inst_PublicIpAddress := None\<rparr>]\<rparr>]\<rparr>) createdDriver []) =
     Return ([], Some (ErrorNew ''No IP for instance i-0a1''))"
proof -
  have a: "fst (getInstance exampleEnv (createdDriver\<lparr>UsePrivateIP := True\<rparr>) []) = Return (Inr exampleInstance)"
    by (simp add: getInstance_def exampleEnv_def)
  have b: "fst (getInstance (exampleEnv\<lparr>DescribeInstances :=
          \<lambda>t ids. Inr [\<lparr>res_Instances = [exampleInstance\<lparr>inst_PublicIpAddress := None\<rparr>]\<rparr>]\<rparr>) createdDriver []) =
     Return (Inr (exampleInstance\<lparr>inst_PublicIpAddress := None\<rparr>))"
    by (simp add: getInstance_def exampleEnv_def)
  show ?thesis
    using a b GetIP_policy [OF a] GetIP_policy [OF b]
    by (simp add: createdDriver_def exampleDriver_def exampleInstance_def)
qed

text \<open>
  Claim C10. After a describe-instances call that succeeded, \<^verbatim>\<open>getInstance\<close> returns
  the first instance of the first reservation, and there is no test for an empty answer:
  with at least one reservation holding at least one instance, \<^verbatim>\<open>getInstance\<close>,
  \<^verbatim>\<open>GetIP\<close>, \<^verbatim>\<open>GetState\<close> and \<^verbatim>\<open>deleteKeyPair\<close> return; with no reservation, or
  with a first reservation that holds no instance, they panic on the index
  (\<^verbatim>\<open>deleteKeyPair\<close> when a key name is recorded, since it asks for the instance only
  then).
\<close>

theorem getInstance_first_of_first:
  assumes "DescribeInstances c t [InstanceId d] = Inr rs"
  shows "(rs \<noteq> [] \<and> res_Instances (hd rs) \<noteq> [] \<longrightarrow>
            fst (getInstance c d t) = Return (Inr (hd (res_Instances (hd rs)))) \<and>
            (\<exists>r. fst (GetIP c d t) = Return r) \<and>
            (\<exists>r. fst (GetState c d t) = Return r) \<and>
            (\<exists>r. fst (deleteKeyPair c d t) = Return r)) \<and>
         (rs = [] \<or> res_Instances (hd rs) = [] \<longrightarrow>
            fst (getInstance c d t) = Panic IndexOutOfRange \<and>
            fst (GetIP c d t) = Panic IndexOutOfRange \<and>
            fst (GetState c d t) = Panic IndexOutOfRange \<and>
            (KeyName d \<noteq> [] \<longrightarrow> fst (deleteKeyPair c d t) = Panic IndexOutOfRange))"
  using assms
  by (auto simp: getInstance_def GetIP_def GetState_def deleteKeyPair_def
           split: prod.splits option.splits outcome.splits sum.splits list.splits)

theorem getInstance_first_of_first_witness:
  "DescribeInstances exampleEnv [] [InstanceId createdDriver] = Inr [\<lparr>res_Instances = [exampleInstance]\<rparr>] \<and>
   fst (getInstance exampleEnv createdDriver []) = Return (Inr exampleInstance) \<and>
   DescribeInstances (exampleEnv\<lparr>DescribeInstances := \<lambda>t ids. Inr []\<rparr>) [] [InstanceId createdDriver] = Inr [] \<and>
   fst (getInstance (exampleEnv\<lparr>DescribeInstances := \<lambda>t ids. Inr []\<rparr>) createdDriver []) = Panic IndexOutOfRange \<and>
   fst (GetIP (exampleEnv\<lparr>DescribeInstances := \<lambda>t ids. Inr []\<rparr>) createdDriver []) = Panic IndexOutOfRange \<and>
   fst (GetState (exampleEnv\<lparr>DescribeInstances := \<lambda>t ids. Inr []\<rparr>) createdDriver []) = Panic IndexOutOfRange \<and>
   fst (deleteKeyPair (exampleEnv\<lparr>DescribeInstances := \<lambda>t ids. Inr []\<rparr>) createdDriver []) = Panic IndexOutOfRange \<and>
   DescribeInstances (exampleEnv\<lparr>DescribeInstances := \<lambda>t ids. Inr [\<lparr>res_Instances = []\<rparr>]\<rparr>) [] [InstanceId createdDriver] =
     Inr [\<lparr>res_Instances = []\<rparr>] \<and>
   fst (getInstance (exampleEnv\<lparr>DescribeInstances := \<lambda>t ids. Inr [\<lparr>res_Instances = []\<rparr>]\<rparr>) createdDriver []) =
     Panic IndexOutOfRange"
proof -
  have a: "DescribeInstances exampleEnv [] [InstanceId createdDriver] = Inr [\<lparr>res_Instances = [exampleInstance]\<rparr>]"
    by (simp add: exampleEnv_def)
  have b: "DescribeInstances (exampleEnv\<lparr>DescribeInstances := \<lambda>t ids. Inr []\<rparr>) [] [InstanceId createdDriver] = Inr []"
    by simp
  have c: "DescribeInstances (exampleEnv\<lparr>DescribeInstances := \<lambda>t ids. Inr [\<lparr>res_Instances = []\<rparr>]\<rparr>) [] [InstanceId createdDriver] =
     Inr [\<lparr>res_Instances = []\<rparr>]"
    by simp
  show ?thesis
    using a b c getInstance_first_of_first [OF a] getInstance_first_of_first [OF b]
      getInstance_first_of_first [OF c]
    by (simp add: createdDriver_def exampleDriver_def)
qed

section \<open>Block devices\<close>

text \<open>
  Claim C9. The list that \<^verbatim>\<open>updateBDMList\<close> returns holds, in order, the entries of
  the image's list that have an EBS device. Each returned entry keeps its device name,
  has delete-on-termination set to true, and has the configured root size and volume type
  when its device name is the configured root device name; an entry with another name
  keeps the size and type it had.
\<close>

theorem updateBDMList_overrides_root_only:
  "list_all2
     (\<lambda>src out.
        bdm_DeviceName out = bdm_DeviceName src \<and>
        (\<exists>ebs ebs'. bdm_Ebs src = Some ebs \<and> bdm_Ebs out = Some ebs' \<and>
           ebs_DeleteOnTermination ebs' = Some True \<and>
           ebs_VolumeSize ebs' =
             (if bdm_DeviceName src = DeviceName d then Some (RootSize d) else ebs_VolumeSize ebs) \<and>
           ebs_VolumeType ebs' =
             (if bdm_DeviceName src = DeviceName d then Some (VolumeType d) else ebs_VolumeType ebs)))
     (filter (\<lambda>b. bdm_Ebs b \<noteq> None) (bdmList d)) (fst (updateBDMList d))"
proof -
  have "fst (updateBDMList d) =
      map (\<lambda>b. updateBDM d b (the (bdm_Ebs b))) (filter (\<lambda>b. bdm_Ebs b \<noteq> None) (bdmList d))"
    using updateBDMLoop_out [of d "bdmList d"]
    by (cases "updateBDMLoop d (bdmList d)") (simp add: updateBDMList_def)
  then show ?thesis
    by (auto simp: list_all2_map2 updateBDM_def intro!: list_all2_all_nthI list.rel_refl_strong)
qed

theorem updateBDMList_overrides_root_only_witness:
  "fst (updateBDMList exampleDriver) =
     [\<lparr>bdm_DeviceName = ''/dev/sda1'',
       bdm_Ebs = Some \<lparr>ebs_VolumeSize = Some 30, ebs_VolumeType = Some ''gp2'',
                        ebs_DeleteOnTermination = Some True\<rparr>\<rparr>,
      \<lparr>bdm_DeviceName = ''/dev/sdb'',
       bdm_Ebs = Some \<lparr>ebs_VolumeSize = Some 100, ebs_VolumeType = Some ''io1'',
                        ebs_DeleteOnTermination = Some True\<rparr>\<rparr>] \<and>
   list_all2
     (\<lambda>src out.
        bdm_DeviceName out = bdm_DeviceName src \<and>
        (\<exists>ebs ebs'. bdm_Ebs src = Some ebs \<and> bdm_Ebs out = Some ebs' \<and>
           ebs_DeleteOnTermination ebs' = Some True \<and>
           ebs_VolumeSize ebs' =
             (if bdm_DeviceName src = DeviceName exampleDriver then Some (RootSize exampleDriver) else ebs_VolumeSize ebs) \<and>
           ebs_VolumeType ebs' =
             (if bdm_DeviceName src = DeviceName exampleDriver then Some (VolumeType exampleDriver) else ebs_VolumeType ebs)))
     (filter (\<lambda>b. bdm_Ebs b \<noteq> None) (bdmList exampleDriver)) (fst (updateBDMList exampleDriver))"
  using updateBDMList_overrides_root_only [of exampleDriver]
  by (simp add: updateBDMList_def updateBDM_def exampleDriver_def)

section \<open>Tagging: the cluster identifier\<close>

lemma IndexByte_takeWhile:
  "IndexByte s ch = (if ch \<in> set s then int (length (takeWhile (\<lambda>x. x \<noteq> ch) s)) else - 1)"
  by (induction s) (auto simp: Let_def)

lemma slice_to_IndexByte:
  "slice_to s (IndexByte s ch) =
     (if ch \<in> set s then Return (takeWhile (\<lambda>x. x \<noteq> ch) s) else Panic SliceBoundsOutOfRange)"
proof (cases "ch \<in> set s")
  case True
  have "take (length (takeWhile (\<lambda>x. x \<noteq> ch) s)) s = takeWhile (\<lambda>x. x \<noteq> ch) s"
    by (induction s) auto
  moreover have "length (takeWhile (\<lambda>x. x \<noteq> ch) s) \<le> length s"
    by (rule length_takeWhile_le)
  ultimately show ?thesis
    using True by (simp add: IndexByte_takeWhile slice_to_def)
next
  case False
  then show ?thesis
    by (simp add: IndexByte_takeWhile slice_to_def)
qed

text \<open>
  Claim C2, as amended. For every host name that contains a hyphen, \<^verbatim>\<open>configureTags\<close>
  takes as cluster identifier the part of the host name before its first hyphen, puts it
  in the key of the ownership tag, and sends the one tag request, whose result it
  returns.
\<close>

theorem configureTags_cluster_id:
  assumes "CHR ''-'' \<in> set (MachineName d)"
  shows "snd (configureTags c d tagGroups t) =
           t @ [CreateTagsCall [InstanceId d]
                  ([\<lparr>tag_Key = ''Name'', tag_Value = MachineName d\<rparr>,
                    \<lparr>tag_Key = ''OscK8sClusterID/'' @ takeWhile (\<lambda>ch. ch \<noteq> CHR ''-'') (MachineName d),
                     tag_Value = ''owned''\<rparr>,
                    \<lparr>tag_Key = ''OscK8sNodeName'', tag_Value = MachineName d\<rparr>] @
                   (if tagGroups \<noteq> [] then tagPairs (Split tagGroups CHR '','') else []))] \<and>
         fst (configureTags c d tagGroups t) =
           Return (case CreateTags c t [InstanceId d]
                          ([\<lparr>tag_Key = ''Name'', tag_Value = MachineName d\<rparr>,
                            \<lparr>tag_Key = ''OscK8sClusterID/'' @ takeWhile (\<lambda>ch. ch \<noteq> CHR ''-'') (MachineName d),
                             tag_Value = ''owned''\<rparr>,
                            \<lparr>tag_Key = ''OscK8sNodeName'', tag_Value = MachineName d\<rparr>] @
                           (if tagGroups \<noteq> [] then tagPairs (Split tagGroups CHR '','') else [])) of
                     None \<Rightarrow> None
                   | Some e \<Rightarrow> Some (External e))"
  using assms
  by (simp add: configureTags_def slice_to_IndexByte Let_def split: option.splits)

theorem configureTags_cluster_id_witness:
  "CHR ''-'' \<in> set (MachineName (createdDriver\<lparr>MachineName := ''prod-eu-node-3''\<rparr>)) \<and>
   configureTags exampleEnv (createdDriver\<lparr>MachineName := ''prod-eu-node-3''\<rparr>) ''k1,v1,k2'' [] =
     (Return None,
      [CreateTagsCall [''i-0a1'']
         [\<lparr>tag_Key = ''Name'', tag_Value = ''prod-eu-node-3''\<rparr>,
          \<lparr>tag_Key = ''OscK8sClusterID/prod'', tag_Value = ''owned''\<rparr>,
          \<lparr>tag_Key = ''OscK8sNodeName'', tag_Value = ''prod-eu-node-3''\<rparr>,
          \<lparr>tag_Key = ''k1'', tag_Value = ''v1''\<rparr>]])"
proof -
  have h: "CHR ''-'' \<in> set (MachineName (createdDriver\<lparr>MachineName := ''prod-eu-node-3''\<rparr>))"
    by simp
  show ?thesis
    using configureTags_cluster_id [OF h, of exampleEnv "''k1,v1,k2''" "[]"]
    by (simp add: createdDriver_def exampleDriver_def exampleEnv_def prod_eq_iff)
qed

text \<open>
  Claim C2 as the specification states it fails: for the host name \<^verbatim>\<open>web\<close>, which has
  no hyphen, \<^verbatim>\<open>strings.IndexByte\<close> gives \<open>-1\<close>, the slice expression panics, and
  no tag request is sent.
\<close>

theorem configureTags_no_hyphen_panics:
  "CHR ''-'' \<notin> set (MachineName (createdDriver\<lparr>MachineName := ''web''\<rparr>)) \<and>
   IndexByte (MachineName (createdDriver\<lparr>MachineName := ''web''\<rparr>)) CHR ''-'' = - 1 \<and>
   configureTags exampleEnv (createdDriver\<lparr>MachineName := ''web''\<rparr>) [] [] = (Panic SliceBoundsOutOfRange, [])"
  by (simp add: configureTags_def slice_to_def)

section \<open>Key pair: the generated name\<close>

lemma length_charset: "length charset = 52"
  by (simp add: charset_def)

lemma Intn_charset: "charset ! Intn c t (length charset) \<in> set charset"
  by (rule nth_mem) (simp add: Intn_def length_charset)

lemma randomBytes_numeral:
  "randomBytes c (numeral k) t =
     (case randomBytes c (pred_numeral k) (t @ [IntnCall (length charset)]) of
        (b, t1) \<Rightarrow> ((charset ! Intn c t (length charset)) # b, t1))"
  by (simp add: numeral_eq_Suc)

lemma randomBytes_result:
  "randomBytes c n t = (b, t1) \<Longrightarrow>
     length b = n \<and> set b \<subseteq> set charset \<and> t1 = t @ replicate n (IntnCall (length charset))"
proof (induction n arbitrary: t b t1)
  case 0
  then show ?case by simp
next
  case (Suc n)
  obtain b' t' where r: "randomBytes c n (t @ [IntnCall (length charset)]) = (b', t')"
    by (cases "randomBytes c n (t @ [IntnCall (length charset)])")
  from Suc.IH [OF r] Suc.prems r show ?case
    by (auto simp: Intn_charset replicate_app_Cons_same)
qed

lemma upt_Suc_map: "[0..<Suc n] = 0 # map Suc [0..<n]"
  by (simp only: upt_conv_Cons [of 0 "Suc n"] map_Suc_upt)

lemma upt_0_5: "[0..<5] = [0, 1, 2, 3, 4]"
  by (simp add: upt_rec)

lemma replicate_5: "replicate 5 x = [x, x, x, x, x]"
  by (simp add: numeral_eq_Suc)

lemma randomBytes_Intn:
  "randomBytes c n t =
     (map (\<lambda>i. charset ! Intn c (t @ replicate i (IntnCall (length charset))) (length charset)) [0..<n],
      t @ replicate n (IntnCall (length charset)))"
proof (induction n arbitrary: t)
  case 0
  show ?case by simp
next
  case (Suc n)
  have "map (\<lambda>i. charset ! Intn c (t @ replicate i (IntnCall (length charset))) (length charset)) [0..<Suc n] =
        charset ! Intn c t (length charset) #
        map (\<lambda>i. charset ! Intn c ((t @ [IntnCall (length charset)]) @ replicate i (IntnCall (length charset))) (length charset)) [0..<n]"
    by (simp only: upt_Suc_map) (simp add: comp_def)
  then show ?case
    by (simp add: Suc.IH replicate_app_Cons_same del: upt_Suc)
qed

text \<open>
  Claim C8. When the key pair is made by the driver (no private key path, or no name of
  an existing key pair) and the local steps succeed (the key is generated, or the two
  files are copied; the public key is read), \<^verbatim>\<open>createKeyPair\<close> draws five numbers
  from the generator, one \<^verbatim>\<open>Intn\<close> call each, and takes the characters of \<open>charset\<close>
  at these indices as suffix; \<open>charset\<close> holds the 52 letters, so each character is a
  letter or digit. It then makes one import request, for the name made of the host name, a
  hyphen and the suffix, with the public key that was read as material; when the request
  succeeds it records that name in \<open>KeyName\<close>, and when it fails it returns the error
  and leaves the driver as it was.
\<close>

theorem createKeyPair_key_name:
  assumes "SSHPrivateKeyPath d = [] \<or> KeyName d = []"
    and "if SSHPrivateKeyPath d = [] then GenerateSSHKey c t (SSHKeyPath d) = None
         else CopyFile c t (SSHPrivateKeyPath d) (SSHKeyPath d) = None \<and>
              CopyFile c (t @ [CopyFileCall (SSHPrivateKeyPath d) (SSHKeyPath d)])
                (SSHPrivateKeyPath d @ ''.pub'') (SSHKeyPath d @ ''.pub'') = None"
    and "t0 = (if SSHPrivateKeyPath d = [] then t @ [GenerateSSHKeyCall (SSHKeyPath d)]
               else t @ [CopyFileCall (SSHPrivateKeyPath d) (SSHKeyPath d),
                         CopyFileCall (SSHPrivateKeyPath d @ ''.pub'') (SSHKeyPath d @ ''.pub'')])"
    and "keyPath = (if SSHPrivateKeyPath d = [] then SSHKeyPath d else SSHPrivateKeyPath d)"
    and "ReadFile c t0 (keyPath @ ''.pub'') = Inr publicKey"
    and "b = map (\<lambda>i. charset ! Intn c (t0 @ ReadFileCall (keyPath @ ''.pub'') # replicate i (IntnCall (length charset)))
                            (length charset)) [0..<5]"
    and "tI = t0 @ ReadFileCall (keyPath @ ''.pub'') # replicate 5 (IntnCall (length charset))"
  shows "length b = 5 \<and>
         set b \<subseteq> set charset \<and>
         set b \<subseteq> set ''abcdefghijklmnopqrstuvwxyzABCDEFGHIJKLMNOPQRSTUVWXYZ0123456789'' \<and>
         createKeyPair c d t =
           (case ImportKeyPair c tI (MachineName d @ ''-'' @ b) publicKey of
              None \<Rightarrow> (None, d\<lparr>KeyName := MachineName d @ ''-'' @ b\<rparr>,
                        tI @ [ImportKeyPairCall (MachineName d @ ''-'' @ b) publicKey])
            | Some e \<Rightarrow> (Some (External e), d,
                          tI @ [ImportKeyPairCall (MachineName d @ ''-'' @ b) publicKey]))"
proof -
  have sub: "set charset \<subseteq> set ''abcdefghijklmnopqrstuvwxyzABCDEFGHIJKLMNOPQRSTUVWXYZ0123456789''"
    by (simp add: charset_def)
  have rb: "randomBytes c 5 (t0 @ [ReadFileCall (keyPath @ ''.pub'')]) = (b, tI)"
    unfolding randomBytes_Intn assms(6) assms(7) by simp
  from randomBytes_result [OF rb] have len: "length b = 5" and cs: "set b \<subseteq> set charset"
    by auto
  have imp: "importKeyPair c keyPath d t0 =
      (case ImportKeyPair c tI (MachineName d @ ''-'' @ b) publicKey of
              None \<Rightarrow> (None, d\<lparr>KeyName := MachineName d @ ''-'' @ b\<rparr>,
                        tI @ [ImportKeyPairCall (MachineName d @ ''-'' @ b) publicKey])
            | Some e \<Rightarrow> (Some (External e), d,
                          tI @ [ImportKeyPairCall (MachineName d @ ''-'' @ b) publicKey]))"
    using assms(5) rb by (simp add: importKeyPair_def split: option.splits)
  have "createKeyPair c d t = importKeyPair c keyPath d t0"
    using assms(1) assms(2) assms(3) assms(4)
    by (auto simp: createKeyPair_def split: if_splits)
  with imp len cs sub show ?thesis
    by auto
qed

theorem createKeyPair_key_name_witness:
  "(SSHPrivateKeyPath exampleDriver = [] \<or> KeyName exampleDriver = []) \<and>
   GenerateSSHKey exampleEnv [] (SSHKeyPath exampleDriver) = None \<and>
   ReadFile exampleEnv [GenerateSSHKeyCall ''/m/id_rsa''] ''/m/id_rsa.pub'' = Inr ''ssh-rsa AAAA'' \<and>
   map (\<lambda>i. charset ! Intn exampleEnv
                ([GenerateSSHKeyCall ''/m/id_rsa''] @ ReadFileCall ''/m/id_rsa.pub'' # replicate i (IntnCall (length charset)))
                (length charset)) [0..<5] = ''ovCJQ'' \<and>
   ImportKeyPair exampleEnv
     [GenerateSSHKeyCall ''/m/id_rsa'', ReadFileCall ''/m/id_rsa.pub'',
      IntnCall 52, IntnCall 52, IntnCall 52, IntnCall 52, IntnCall 52] ''web-1-ovCJQ'' ''ssh-rsa AAAA'' = None \<and>
   createKeyPair exampleEnv exampleDriver [] =
     (None, exampleDriver\<lparr>KeyName := ''web-1-ovCJQ''\<rparr>,
      [GenerateSSHKeyCall ''/m/id_rsa'', ReadFileCall ''/m/id_rsa.pub'',
       IntnCall 52, IntnCall 52, IntnCall 52, IntnCall 52, IntnCall 52,
       ImportKeyPairCall ''web-1-ovCJQ'' ''ssh-rsa AAAA''])"
proof -
  have h1: "SSHPrivateKeyPath exampleDriver = [] \<or> KeyName exampleDriver = []"
    by (simp add: exampleDriver_def)
  have h2: "if SSHPrivateKeyPath exampleDriver = [] then GenerateSSHKey exampleEnv [] (SSHKeyPath exampleDriver) = None
         else CopyFile exampleEnv [] (SSHPrivateKeyPath exampleDriver) (SSHKeyPath exampleDriver) = None \<and>
              CopyFile exampleEnv ([] @ [CopyFileCall (SSHPrivateKeyPath exampleDriver) (SSHKeyPath exampleDriver)])
                (SSHPrivateKeyPath exampleDriver @ ''.pub'') (SSHKeyPath exampleDriver @ ''.pub'') = None"
    by (simp add: exampleDriver_def exampleEnv_def)
  have h3: "[GenerateSSHKeyCall ''/m/id_rsa''] =
      (if SSHPrivateKeyPath exampleDriver = [] then [] @ [GenerateSSHKeyCall (SSHKeyPath exampleDriver)]
       else [] @ [CopyFileCall (SSHPrivateKeyPath exampleDriver) (SSHKeyPath exampleDriver),
                  CopyFileCall (SSHPrivateKeyPath exampleDriver @ ''.pub'') (SSHKeyPath exampleDriver @ ''.pub'')])"
    by (simp add: exampleDriver_def)
  have h4: "''/m/id_rsa'' = (if SSHPrivateKeyPath exampleDriver = [] then SSHKeyPath exampleDriver
                             else SSHPrivateKeyPath exampleDriver)"
    by (simp add: exampleDriver_def)
  have h5: "ReadFile exampleEnv [GenerateSSHKeyCall ''/m/id_rsa''] (''/m/id_rsa'' @ ''.pub'') = Inr ''ssh-rsa AAAA''"
    by (simp add: exampleEnv_def)
  have b: "map (\<lambda>i. charset ! Intn exampleEnv
                ([GenerateSSHKeyCall ''/m/id_rsa''] @ ReadFileCall (''/m/id_rsa'' @ ''.pub'') # replicate i (IntnCall (length charset)))
                (length charset)) [0..<5] = ''ovCJQ''"
    by (simp add: upt_0_5 Intn_def exampleEnv_def length_charset) (simp add: charset_def)
  have imp: "\<And>t. ImportKeyPair exampleEnv t ''web-1-ovCJQ'' ''ssh-rsa AAAA'' = None"
    by (simp add: exampleEnv_def)
  from createKeyPair_key_name [OF h1 h2 h3 h4 h5 b [symmetric] refl]
  show ?thesis
    using h1 h2 h5 b imp by (simp add: exampleDriver_def length_charset replicate_5)
qed

section \<open>Creation: the user data\<close>













section \<open>Creation: the teardown after a failure\<close>

lemma launchFails_createKeyPair:
  "createKeyPair launchFailsEnv exampleDriver [] =
     (None, exampleDriver\<lparr>KeyName := ''web-1-ovCJQ''\<rparr>,
      [GenerateSSHKeyCall ''/m/id_rsa'', ReadFileCall ''/m/id_rsa.pub'',
       IntnCall 52, IntnCall 52, IntnCall 52, IntnCall 52, IntnCall 52,
       ImportKeyPairCall ''web-1-ovCJQ'' ''ssh-rsa AAAA''])"
  by (simp add: createKeyPair_def importKeyPair_def launchFailsEnv_def
        exampleEnv_def exampleDriver_def Intn_def randomBytes_numeral length_charset)
    (simp add: charset_def)

lemma launchFails_innerCreate:
  "innerCreate launchFailsEnv exampleDriver [] =
     (Return (Some (Errorf ''Error launching instance: '' (External ''InsufficientInstanceCapacity''))),
      snd (updateBDMList (exampleDriver\<lparr>KeyName := ''web-1-ovCJQ''\<rparr>)),
      [GenerateSSHKeyCall ''/m/id_rsa'', ReadFileCall ''/m/id_rsa.pub'',
       IntnCall 52, IntnCall 52, IntnCall 52, IntnCall 52, IntnCall 52,
       ImportKeyPairCall ''web-1-ovCJQ'' ''ssh-rsa AAAA'',
       RunInstancesCall
         (runInstancesInput (snd (updateBDMList (exampleDriver\<lparr>KeyName := ''web-1-ovCJQ''\<rparr>)))
            (fst (updateBDMList (exampleDriver\<lparr>KeyName := ''web-1-ovCJQ''\<rparr>))) [])])"
proof -
  have names: "securityGroupNames (exampleDriver\<lparr>KeyName := ''web-1-ovCJQ''\<rparr>) = []"
    by (simp add: securityGroupNames_def migrateStringToSlice_def exampleDriver_def)
  have ud: "UserDataFile (exampleDriver\<lparr>KeyName := ''web-1-ovCJQ''\<rparr>) = []"
    by (simp add: exampleDriver_def)
  have run: "\<And>t inp. RunInstances launchFailsEnv t inp = Inl ''InsufficientInstanceCapacity''"
    by (simp add: launchFailsEnv_def)
  show ?thesis
    by (simp add: innerCreate_def launchFails_createKeyPair names configureSecurityGroups_def
          Base64UserData_def ud launchInstance_def run split: prod.splits)
qed

lemma launchFails_driver:
  "InstanceId (snd (updateBDMList (exampleDriver\<lparr>KeyName := ''web-1-ovCJQ''\<rparr>))) = [] \<and>
   KeyName (snd (updateBDMList (exampleDriver\<lparr>KeyName := ''web-1-ovCJQ''\<rparr>))) = ''web-1-ovCJQ'' \<and>
   \<not> ExistingKey (snd (updateBDMList (exampleDriver\<lparr>KeyName := ''web-1-ovCJQ''\<rparr>)))"
  by (simp add: updateBDMList_def exampleDriver_def split: prod.splits)

lemma launchFails_Remove:
  "Remove launchFailsEnv (snd (updateBDMList (exampleDriver\<lparr>KeyName := ''web-1-ovCJQ''\<rparr>))) t =
     (Return (Some (MultiError [External ''InvalidInstanceID.Malformed''])), t @ [DescribeInstancesCall [[]]])"
  using launchFails_driver
  by (simp add: Remove_def terminate_def deleteKeyPair_def getInstance_def launchFailsEnv_def
        appendErr_def multierrResult_def)

text \<open>
  Claim C1, as amended. When \<^verbatim>\<open>innerCreate\<close> returns an error, \<^verbatim>\<open>Create\<close> runs
  \<^verbatim>\<open>Remove\<close> from the state that \<^verbatim>\<open>innerCreate\<close> left, and, when \<^verbatim>\<open>Remove\<close>
  returns, \<^verbatim>\<open>Create\<close> returns the error of \<^verbatim>\<open>innerCreate\<close> unchanged, whatever
  \<^verbatim>\<open>Remove\<close> returned: the result of the cleanup is not part of what \<^verbatim>\<open>Create\<close>
  returns.
\<close>

theorem Create_returns_creation_error:
  assumes "innerCreate c d t = (Return (Some err), d1, t1)"
  shows "snd (snd (Create c d t)) = snd (Remove c d1 t1) \<and>
         (\<forall>removed. fst (Remove c d1 t1) = Return removed \<longrightarrow>
            Create c d t = (Return (Some err), d1, snd (Remove c d1 t1)))"
  using assms
  by (cases "Remove c d1 t1") (auto simp: Create_def split: outcome.splits)

theorem Create_returns_creation_error_witness:
  "fst (innerCreate launchFailsEnv exampleDriver []) =
     Return (Some (Errorf ''Error launching instance: '' (External ''InsufficientInstanceCapacity''))) \<and>
   fst (Create launchFailsEnv exampleDriver []) =
     Return (Some (Errorf ''Error launching instance: '' (External ''InsufficientInstanceCapacity''))) \<and>
   last (snd (snd (Create launchFailsEnv exampleDriver []))) = DescribeInstancesCall [[]]"
  using Create_returns_creation_error [OF launchFails_innerCreate] launchFails_innerCreate
  by (simp add: launchFails_Remove)

text \<open>
  Claim C1 as the specification states it fails: in this run the launch is refused, the
  cleanup that follows fails with an aggregate error of its own (the key pair that was
  imported is not deleted), and \<^verbatim>\<open>Create\<close> returns the launch error alone.
\<close>

theorem Create_drops_cleanup_failure:
  "fst (innerCreate launchFailsEnv exampleDriver []) =
     Return (Some (Errorf ''Error launching instance: '' (External ''InsufficientInstanceCapacity''))) \<and>
   fst (Remove launchFailsEnv (fst (snd (innerCreate launchFailsEnv exampleDriver [])))
          (snd (snd (innerCreate launchFailsEnv exampleDriver [])))) =
     Return (Some (MultiError [External ''InvalidInstanceID.Malformed''])) \<and>
   fst (Create launchFailsEnv exampleDriver []) =
     Return (Some (Errorf ''Error launching instance: '' (External ''InsufficientInstanceCapacity'')))"
  by (simp add: Create_def launchFails_innerCreate launchFails_Remove)

section \<open>Security groups: the missing permissions\<close>

lemma itoa_22: "itoa 22 = ''22''"
  by (simp add: itoa_def utoa.simps digitChar_def)

lemma itoa_80: "itoa 80 = ''80''"
  by (simp add: itoa_def utoa.simps digitChar_def)

lemma itoa_2376: "itoa 2376 = ''2376''"
  by (simp add: itoa_def utoa.simps digitChar_def)

text \<open>
  What the de-duplication does achieve. \<open>strconv.ParseInt\<close> reads back what
  \<^verbatim>\<open>%d\<close> prints; a key is in \<open>hasPortsInbound\<close> exactly when an existing permission has
  that port and protocol; so no built-in permission, and no open port written the way
  \<^verbatim>\<open>%d\<close> prints it, is returned as missing when the group has a permission under its
  key.
\<close>

lemma digitVal_digitChar: "k < 10 \<Longrightarrow> digitVal (digitChar k) = Some (int k)"
proof -
  assume "k < 10"
  then have "k \<in> {0, 1, 2, 3, 4, 5, 6, 7, 8, 9}"
    by auto
  then show ?thesis
    by (auto simp: digitVal_def digitChar_def)
qed

lemma digitChar_not_sign: "k < 10 \<Longrightarrow> digitChar k \<noteq> CHR ''+'' \<and> digitChar k \<noteq> CHR ''-''"
proof -
  assume "k < 10"
  then have "k \<in> {0, 1, 2, 3, 4, 5, 6, 7, 8, 9}"
    by auto
  then show ?thesis
    by (auto simp: digitChar_def)
qed

lemma parseDigits_append:
  "parseDigits acc (xs @ ys) =
     (case parseDigits acc xs of Inl err \<Rightarrow> Inl err | Inr v \<Rightarrow> parseDigits v ys)"
  by (induction xs arbitrary: acc) (auto split: option.splits)

lemma utoa_nonempty: "utoa n \<noteq> []"
  by (subst utoa.simps) simp

lemma hd_utoa: "hd (utoa n) \<noteq> CHR ''+'' \<and> hd (utoa n) \<noteq> CHR ''-''"
proof (induction n rule: utoa.induct)
  case (1 n)
  show ?case
  proof (cases "n < 10")
    case True
    then show ?thesis
      by (subst utoa.simps, subst (2) utoa.simps) (simp add: digitChar_not_sign)
  next
    case False
    with 1 utoa_nonempty [of "n div 10"] show ?thesis
      by (subst utoa.simps, subst (2) utoa.simps) simp
  qed
qed

lemma parseDigits_utoa: "parseDigits 0 (utoa n) = Inr m \<Longrightarrow> m = int n"
proof (induction n arbitrary: m rule: utoa.induct)
  case (1 n)
  show ?case
  proof (cases "n < 10")
    case True
    with 1(2) show ?thesis
      by (subst (asm) utoa.simps) (simp add: digitVal_digitChar split: if_splits)
  next
    case False
    have d: "n mod 10 < 10" by simp
    have n: "10 * int (n div 10) + int (n mod 10) = int n"
      by presburger
    from 1(2) False
    have "(case parseDigits 0 (utoa (n div 10)) of Inl err \<Rightarrow> Inl err
           | Inr v \<Rightarrow> parseDigits v [digitChar (n mod 10)]) = Inr m"
      by (subst (asm) utoa.simps) (simp add: parseDigits_append)
    then obtain v where v: "parseDigits 0 (utoa (n div 10)) = Inr v"
      and last: "parseDigits v [digitChar (n mod 10)] = Inr m"
      by (cases "parseDigits 0 (utoa (n div 10))") auto
    from 1(1) [OF False v] have "v = int (n div 10)" .
    with last d n show ?thesis
      by (simp add: digitVal_digitChar split: if_splits)
  qed
qed

lemma ParseInt_itoa: "ParseInt (itoa n) = Inr m \<Longrightarrow> m = n"
proof -
  assume a: "ParseInt (itoa n) = Inr m"
  show ?thesis
  proof (cases "n < 0")
    case True
    with a obtain un where "parseDigits 0 (utoa (nat (- n))) = Inr un" and "m = - un"
      using utoa_nonempty [of "nat (- n)"]
      by (auto simp: ParseInt_def ParseUint_def itoa_def Let_def split: if_splits sum.splits)
    with parseDigits_utoa [of "nat (- n)" un] True show ?thesis
      by simp
  next
    case False
    with a obtain un where "parseDigits 0 (utoa (nat n)) = Inr un" and "m = un"
      using utoa_nonempty [of "nat n"] hd_utoa [of "nat n"]
      by (auto simp: ParseInt_def ParseUint_def itoa_def Let_def split: if_splits sum.splits)
    with parseDigits_utoa [of "nat n" un] False show ?thesis
      by simp
  qed
qed

lemma hasPortsInbound_fold:
  "lookupBool (foldl (\<lambda>m p. case FromPort p of
                    None \<Rightarrow> m
                  | Some fromPort \<Rightarrow> m(itoa fromPort @ ''/'' @ IpProtocol p \<mapsto> True)) m0 perms) k =
     (lookupBool m0 k \<or> (\<exists>p\<in>set perms. \<exists>fp. FromPort p = Some fp \<and> k = itoa fp @ ''/'' @ IpProtocol p))"
  by (induction perms arbitrary: m0) (auto simp: lookupBool_def split: option.splits)

lemma hasPortsInbound_key:
  "lookupBool (hasPortsInbound perms) k =
     (\<exists>p\<in>set perms. \<exists>fp. FromPort p = Some fp \<and> k = itoa fp @ ''/'' @ IpProtocol p)"
  by (simp add: hasPortsInbound_def hasPortsInbound_fold) (simp add: lookupBool_def)

lemma appendMissing_absent:
  assumes "list_all (\<lambda>p. \<exists>fp. FromPort p = Some fp \<and> \<not> lookupBool has (itoa fp @ ''/'' @ IpProtocol p)) acc"
    and "FromPort perm = Some fp"
    and "key = itoa fp @ ''/'' @ IpProtocol perm"
  shows "list_all (\<lambda>p. \<exists>fp. FromPort p = Some fp \<and> \<not> lookupBool has (itoa fp @ ''/'' @ IpProtocol p))
           (appendMissing has key perm acc)"
  using assms by (auto simp: appendMissing_def)

lemma appendMissing_permAnySource:
  assumes "list_all (\<lambda>p. \<exists>fp. FromPort p = Some fp \<and> \<not> lookupBool has (itoa fp @ ''/'' @ IpProtocol p)) acc"
  shows "list_all (\<lambda>p. \<exists>fp. FromPort p = Some fp \<and> \<not> lookupBool has (itoa fp @ ''/'' @ IpProtocol p))
           (appendMissing has (itoa fromPort @ CHR ''/'' # proto) (permAnySource proto fromPort toPort) acc)"
  by (rule appendMissing_absent [OF assms, of _ fromPort]) (simp_all add: permAnySource_def)

lemma appendMissing_permSameGroup:
  assumes "list_all (\<lambda>p. \<exists>fp. FromPort p = Some fp \<and> \<not> lookupBool has (itoa fp @ ''/'' @ IpProtocol p)) acc"
  shows "list_all (\<lambda>p. \<exists>fp. FromPort p = Some fp \<and> \<not> lookupBool has (itoa fp @ ''/'' @ IpProtocol p))
           (appendMissing has (itoa fromPort @ CHR ''/'' # proto) (permSameGroup proto fromPort toPort gid) acc)"
  by (rule appendMissing_absent [OF assms, of _ fromPort]) (simp_all add: permSameGroup_def)

lemma openPortPerms_absent:
  assumes "openPortPerms has ps acc = Inr out"
    and "list_all (\<lambda>p. \<exists>fp. FromPort p = Some fp \<and> \<not> lookupBool has (itoa fp @ ''/'' @ IpProtocol p)) acc"
    and "list_all (\<lambda>p. \<exists>n. fst (SplitPortProto p) = itoa n) ps"
  shows "list_all (\<lambda>p. \<exists>fp. FromPort p = Some fp \<and> \<not> lookupBool has (itoa fp @ ''/'' @ IpProtocol p)) out"
  using assms
proof (induction ps arbitrary: acc)
  case Nil
  then show ?case by simp
next
  case (Cons p ps)
  obtain port protocol where sp: "SplitPortProto p = (port, protocol)"
    by (cases "SplitPortProto p")
  from Cons.prems(3) sp obtain n where n: "port = itoa n"
    by auto
  from Cons.prems(1) sp obtain portNum where pn: "ParseInt port = Inr portNum"
    by (cases "ParseInt port") auto
  from pn n have eq: "portNum = n"
    using ParseInt_itoa by blast
  have step: "list_all (\<lambda>p. \<exists>fp. FromPort p = Some fp \<and> \<not> lookupBool has (itoa fp @ ''/'' @ IpProtocol p))
      (appendMissing has (port @ ''/'' @ protocol) (permAnySource protocol portNum portNum) acc)"
    using appendMissing_permAnySource [OF Cons.prems(2), of portNum protocol portNum]
    by (simp add: n eq)
  from Cons.prems(1) sp pn
  have "openPortPerms has ps
      (appendMissing has (port @ ''/'' @ protocol) (permAnySource protocol portNum portNum) acc) = Inr out"
    by simp
  from Cons.IH [OF this step] Cons.prems(3) show ?case
    by simp
qed

lemma rules_not_resubmitted_when_canonical:
  assumes "configureSecurityGroupPermissions d g = Inr out"
    and "list_all (\<lambda>p. \<exists>n. fst (SplitPortProto p) = itoa n) (OpenPorts d)"
  shows "list_all (\<lambda>p. \<exists>fp. FromPort p = Some fp \<and>
           \<not> lookupBool (hasPortsInbound (sg_IpPermissions g)) (itoa fp @ ''/'' @ IpProtocol p)) out"
proof -
  have i22: "''22/tcp'' = itoa 22 @ ''/tcp''"
    by (simp add: itoa_22)
  have rest: "\<And>acc. openPortPerms (hasPortsInbound (sg_IpPermissions g)) (OpenPorts d) acc = Inr out \<Longrightarrow>
      list_all (\<lambda>p. \<exists>fp. FromPort p = Some fp \<and>
           \<not> lookupBool (hasPortsInbound (sg_IpPermissions g)) (itoa fp @ ''/'' @ IpProtocol p)) acc \<Longrightarrow>
      ?thesis"
    using openPortPerms_absent assms(2) by blast
  show ?thesis
  proof (cases "sg_GroupName g = defaultSecurityGroup \<and> hasTagKey (sg_Tags g) machineSecurityGroupName")
    case True
    show ?thesis
      using assms(1) unfolding configureSecurityGroupPermissions_def Let_def i22 if_P [OF True]
      by (rule rest) (intro appendMissing_permAnySource appendMissing_permSameGroup, simp)
  next
    case False
    show ?thesis
      using assms(1) unfolding configureSecurityGroupPermissions_def Let_def i22 if_not_P [OF False]
      by (rule rest) (intro appendMissing_permAnySource appendMissing_permSameGroup, simp)
  qed
qed

text \<open>
  Claim C7. The group \<open>provisionedGroup\<close> already has the permission for port 80 over
  tcp, under the key \<^verbatim>\<open>80/tcp\<close>. With the open port written \<^verbatim>\<open>80/tcp\<close> nothing is
  missing. With the same port written \<^verbatim>\<open>080/tcp\<close>, which \<^verbatim>\<open>strconv.ParseInt\<close> reads as
  80, the key that is looked up is \<^verbatim>\<open>080/tcp\<close>: the permission for port 80 over tcp is
  computed as missing, and \<^verbatim>\<open>configureSecurityGroups\<close> submits it again in an
  authorize-ingress call.
\<close>

theorem open_port_resubmitted_under_other_spelling:
  "lookupBool (hasPortsInbound (sg_IpPermissions provisionedGroup)) ''80/tcp'' \<and>
   ParseInt ''080'' = Inr 80 \<and>
   configureSecurityGroupPermissions (exampleDriver\<lparr>OpenPorts := [''80/tcp'']\<rparr>) provisionedGroup = Inr [] \<and>
   configureSecurityGroupPermissions (exampleDriver\<lparr>OpenPorts := [''080/tcp'']\<rparr>) provisionedGroup =
     Inr [\<lparr>IpProtocol = ''tcp'', FromPort = Some 80, ToPort = Some 80,
           IpRanges = [''0.0.0.0/0''], UserIdGroupPairs = []\<rparr>] \<and>
   configureSecurityGroups provisionedEnv [''web-sg''] (exampleDriver\<lparr>OpenPorts := [''080/tcp'']\<rparr>) [] =
     (Return None,
      exampleDriver\<lparr>OpenPorts := [''080/tcp''], SecurityGroupIds := [''sg-7'']\<rparr>,
      [DescribeSecurityGroupsCall (Filters [(''group-name'', [''web-sg'']), (''vpc-id'', [''vpc-1''])]),
       AuthorizeSecurityGroupIngressCall ''sg-7''
         [\<lparr>IpProtocol = ''tcp'', FromPort = Some 80, ToPort = Some 80,
           IpRanges = [''0.0.0.0/0''], UserIdGroupPairs = []\<rparr>]])"
proof -
  have key: "lookupBool (hasPortsInbound (sg_IpPermissions provisionedGroup)) ''80/tcp''"
    by (simp add: provisionedGroup_def hasPortsInbound_def lookupBool_def itoa_22 itoa_80 itoa_2376)
  have parse: "ParseInt ''080'' = Inr 80"
    by (simp add: ParseInt_def ParseUint_def digitVal_def)
  have same: "configureSecurityGroupPermissions (exampleDriver\<lparr>OpenPorts := [''80/tcp'']\<rparr>) provisionedGroup = Inr []"
    by (simp add: configureSecurityGroupPermissions_def provisionedGroup_def hasPortsInbound_def
          appendMissing_def lookupBool_def permAnySource_def itoa_22 itoa_80 itoa_2376 dockerPort_def
          defaultSecurityGroup_def machineSecurityGroupName_def SplitPortProto_def ParseInt_def
          ParseUint_def digitVal_def Let_def exampleDriver_def)
  have other: "\<And>ids. configureSecurityGroupPermissions
        (exampleDriver\<lparr>OpenPorts := [''080/tcp''], SecurityGroupIds := ids\<rparr>) provisionedGroup =
     Inr [\<lparr>IpProtocol = ''tcp'', FromPort = Some 80, ToPort = Some 80,
           IpRanges = [''0.0.0.0/0''], UserIdGroupPairs = []\<rparr>]"
    by (simp add: configureSecurityGroupPermissions_def provisionedGroup_def hasPortsInbound_def
          appendMissing_def lookupBool_def permAnySource_def itoa_22 itoa_80 itoa_2376 dockerPort_def
          defaultSecurityGroup_def machineSecurityGroupName_def SplitPortProto_def ParseInt_def
          ParseUint_def digitVal_def Let_def ipRange_def exampleDriver_def)
  have other0: "configureSecurityGroupPermissions (exampleDriver\<lparr>OpenPorts := [''080/tcp'']\<rparr>) provisionedGroup =
     Inr [\<lparr>IpProtocol = ''tcp'', FromPort = Some 80, ToPort = Some 80,
           IpRanges = [''0.0.0.0/0''], UserIdGroupPairs = []\<rparr>]"
    using other [of "SecurityGroupIds exampleDriver"] by simp
  have found: "foldl (\<lambda>m securityGroup. m(sg_GroupName securityGroup \<mapsto> securityGroup)) Map.empty [provisionedGroup] ''web-sg'' =
      Some provisionedGroup"
    by (simp add: provisionedGroup_def)
  have ids: "sg_GroupId provisionedGroup = ''sg-7''"
    by (simp add: provisionedGroup_def)
  have run: "configureSecurityGroups provisionedEnv [''web-sg''] (exampleDriver\<lparr>OpenPorts := [''080/tcp'']\<rparr>) [] =
     (Return None,
      exampleDriver\<lparr>OpenPorts := [''080/tcp''], SecurityGroupIds := [''sg-7'']\<rparr>,
      [DescribeSecurityGroupsCall (Filters [(''group-name'', [''web-sg'']), (''vpc-id'', [''vpc-1''])]),
       AuthorizeSecurityGroupIngressCall ''sg-7''
         [\<lparr>IpProtocol = ''tcp'', FromPort = Some 80, ToPort = Some 80,
           IpRanges = [''0.0.0.0/0''], UserIdGroupPairs = []\<rparr>]])"
    using found other [of "[''sg-7'']"] ids
    by (simp add: configureSecurityGroups_def configureSecurityGroup_def resolveGroup_def
          provisionedEnv_def exampleEnv_def exampleDriver_def)
  from key parse same other0 run show ?thesis
    by (intro conjI)
qed

end
